theory Spec2Isabelle
  imports Complex_Main "HOL-Library.Multiset"
begin

section \<open>JavaScript numbers and arrays\<close>

text \<open>
  The forecasting pipeline of \<^verbatim>\<open>src/routes/ml.tsx\<close> (manual per-model variant) and of
  \<^verbatim>\<open>unnamed/part_002\<close> (automatic grid-search variant) computes on JavaScript
  numbers. A \<open>number\<close> is modelled as an exact real or one of the three special values
  of IEEE-754 arithmetic. Rounding to 53 bits, overflow to infinity and the sign of zero
  are not modelled: a finite value is a real, and \<open>0\<close> is the single zero (so \<open>x / 0\<close> is
  \<open>+Infinity\<close> for positive \<open>x\<close>).
\<close>

datatype number = Val real | PosInf | NegInf | NaN

fun num_neg :: "number \<Rightarrow> number" where
  "num_neg (Val a) = Val (- a)"
| "num_neg PosInf = NegInf"
| "num_neg NegInf = PosInf"
| "num_neg NaN = NaN"

fun num_add :: "number \<Rightarrow> number \<Rightarrow> number" where
  "num_add NaN _ = NaN"
| "num_add _ NaN = NaN"
| "num_add (Val a) (Val b) = Val (a + b)"
| "num_add PosInf NegInf = NaN"
| "num_add NegInf PosInf = NaN"
| "num_add PosInf _ = PosInf"
| "num_add NegInf _ = NegInf"
| "num_add (Val a) b = b"

definition num_sub :: "number \<Rightarrow> number \<Rightarrow> number" where
  "num_sub a b = num_add a (num_neg b)"

text \<open>The sign of a number that is not NaN: \<open>-1\<close>, \<open>0\<close> or \<open>1\<close>.\<close>

fun num_sgn :: "number \<Rightarrow> int" where
  "num_sgn (Val a) = (if a < 0 then - 1 else if a = 0 then 0 else 1)"
| "num_sgn PosInf = 1"
| "num_sgn NegInf = - 1"
| "num_sgn NaN = 0"

definition signed_inf :: "int \<Rightarrow> number" where
  "signed_inf s = (if s < 0 then NegInf else PosInf)"

fun num_mul :: "number \<Rightarrow> number \<Rightarrow> number" where
  "num_mul NaN _ = NaN"
| "num_mul _ NaN = NaN"
| "num_mul (Val a) (Val b) = Val (a * b)"
| "num_mul a b = (if num_sgn a * num_sgn b = 0 then NaN else signed_inf (num_sgn a * num_sgn b))"

fun num_div :: "number \<Rightarrow> number \<Rightarrow> number" where
  "num_div NaN _ = NaN"
| "num_div _ NaN = NaN"
| "num_div (Val a) (Val b) =
     (if b = 0 then (if a = 0 then NaN else if 0 < a then PosInf else NegInf)
      else Val (a / b))"
| "num_div (Val a) _ = Val 0"
| "num_div a (Val b) = (if 0 \<le> b then a else num_neg a)"
| "num_div _ _ = NaN"

fun Math_abs :: "number \<Rightarrow> number" where
  "Math_abs (Val a) = Val \<bar>a\<bar>"
| "Math_abs PosInf = PosInf"
| "Math_abs NegInf = PosInf"
| "Math_abs NaN = NaN"

text \<open>\<open>a < b\<close> on numbers: false as soon as one side is NaN.\<close>

fun num_less :: "number \<Rightarrow> number \<Rightarrow> bool" where
  "num_less NaN _ = False"
| "num_less _ NaN = False"
| "num_less (Val a) (Val b) = (a < b)"
| "num_less PosInf _ = False"
| "num_less _ NegInf = False"
| "num_less _ _ = True"

text \<open>\<open>Math.max(a, b)\<close> and \<open>Math.min(a, b)\<close>: NaN if an argument is NaN.\<close>

fun Math_max2 :: "number \<Rightarrow> number \<Rightarrow> number" where
  "Math_max2 NaN _ = NaN"
| "Math_max2 _ NaN = NaN"
| "Math_max2 a b = (if num_less a b then b else a)"

fun Math_min2 :: "number \<Rightarrow> number \<Rightarrow> number" where
  "Math_min2 NaN _ = NaN"
| "Math_min2 _ NaN = NaN"
| "Math_min2 a b = (if num_less b a then b else a)"

text \<open>
  \<open>Math.max(...data)\<close> and \<open>Math.min(...data)\<close> over a spread array: \<open>-Infinity\<close> and
  \<open>+Infinity\<close> on the empty array.
\<close>

definition Math_max :: "number list \<Rightarrow> number" where
  "Math_max xs = foldl Math_max2 NegInf xs"

definition Math_min :: "number list \<Rightarrow> number" where
  "Math_min xs = foldl Math_min2 PosInf xs"

text \<open>\<open>Math.round\<close>: the nearest integer, a tie going up.\<close>

fun Math_round :: "number \<Rightarrow> number" where
  "Math_round (Val a) = Val (of_int \<lfloor>a + 1 / 2\<rfloor>)"
| "Math_round x = x"

text \<open>A number in a boolean position (\<open>x || y\<close>): zero and NaN are falsy.\<close>

fun truthy :: "number \<Rightarrow> bool" where
  "truthy (Val a) = (a \<noteq> 0)"
| "truthy NaN = False"
| "truthy _ = True"

text \<open>
  \<open>xs[i]\<close> used as a number: reading past the end gives \<open>undefined\<close>, which arithmetic
  turns into NaN.
\<close>

definition at_num :: "number list \<Rightarrow> nat \<Rightarrow> number" where
  "at_num xs i = (if i < length xs then xs ! i else NaN)"

text \<open>
  \<open>xs.slice(start, end)\<close> and \<open>xs.slice(start)\<close> with JavaScript's relative indices: a
  negative index counts from the end, and both are clamped to the array.
\<close>

definition rel_index :: "nat \<Rightarrow> int \<Rightarrow> nat" where
  "rel_index len k = (if k < 0 then nat (max (int len + k) 0) else min (nat k) len)"

definition slice :: "'a list \<Rightarrow> int \<Rightarrow> int \<Rightarrow> 'a list" where
  "slice xs start fin =
     (let k = rel_index (length xs) start; e = rel_index (length xs) fin
      in take (e - k) (drop k xs))"

definition slice_from :: "'a list \<Rightarrow> int \<Rightarrow> 'a list" where
  "slice_from xs start = drop (rel_index (length xs) start) xs"

section \<open>Normalizer\<close>

text \<open>
  \<^verbatim>\<open>normalizeData\<close> returns the object \<open>{ normalized, min, max }\<close>; \<^verbatim>\<open>denormalizeData\<close>
  maps back. Neither tests whether \<open>max - min\<close> is zero.
\<close>

record normalization =
  normalized :: "number list"
  nmin :: number
  nmax :: number

definition normalizeData :: "number list \<Rightarrow> normalization" where
  "normalizeData data =
     (let mn = Math_min data; mx = Math_max data
      in \<lparr> normalized = map (\<lambda>v. num_div (num_sub v mn) (num_sub mx mn)) data,
           nmin = mn, nmax = mx \<rparr>)"

definition denormalizeData :: "number list \<Rightarrow> number \<Rightarrow> number \<Rightarrow> number list" where
  "denormalizeData scaled mn mx = map (\<lambda>v. num_add (num_mul v (num_sub mx mn)) mn) scaled"

section \<open>Window builder\<close>

text \<open>
  \<^verbatim>\<open>createSequences\<close> returns \<open>{ X, y }\<close>: the windows and their targets, as two parallel
  arrays. The loop \<^verbatim>\<open>for (let i = lookback; i < data.length; i++)\<close> pushes
  \<open>data.slice(i - lookback, i)\<close> and \<open>data[i]\<close>. The lookback is a count of time steps, a
  natural number.
\<close>

record 'a sequences =
  seq_X :: "'a list list"
  seq_y :: "'a list"

function createSequences_loop ::
  "'a list \<Rightarrow> nat \<Rightarrow> nat \<Rightarrow> 'a sequences \<Rightarrow> 'a sequences" where
  "createSequences_loop data lookback i acc =
     (if i < length data
      then createSequences_loop data lookback (Suc i)
             \<lparr> seq_X = seq_X acc @ [slice data (int i - int lookback) (int i)],
               seq_y = seq_y acc @ [data ! i] \<rparr>
      else acc)"
  by pat_completeness auto
termination
  by (relation "measure (\<lambda>(data, lookback, i, acc). length data - i)") auto

declare createSequences_loop.simps [simp del]

definition createSequences :: "'a list \<Rightarrow> nat \<Rightarrow> 'a sequences" where
  "createSequences data lookback =
     createSequences_loop data lookback lookback \<lparr> seq_X = [], seq_y = [] \<rparr>"

text \<open>
  The window builder as the specification words it: it fails when the lookback is not
  smaller than the series.
\<close>

datatype error = NotEnoughData nat | TrainingFailed | Alert string | ForecastFailed | Uncaught

definition buildWindows_spec :: "'a list \<Rightarrow> nat \<Rightarrow> error + 'a sequences" where
  "buildWindows_spec data lookback =
     (if length data \<le> lookback then Inl (NotEnoughData (Suc lookback))
      else Inr \<lparr> seq_X = map (\<lambda>k. take lookback (drop k data)) [0..<length data - lookback],
                 seq_y = map (\<lambda>k. data ! (k + lookback)) [0..<length data - lookback] \<rparr>)"

section \<open>Series aggregator\<close>

text \<open>
  A yearly record is a document with a numeric \<open>Year\<close> and one entry per category
  (\<^verbatim>\<open>[country: string]: any\<close>). A category value is any JavaScript value of the document
  store: a number, a string, a boolean, null, or an object with its properties (arrays are
  not modelled). The cast \<^verbatim>\<open>value as { emigrants: number }\<close> is not checked when the code
  runs, so the \<open>emigrants\<close> property of an object is again any value.
\<close>

datatype jsvalue =
  JNumber number | JString string | JBool bool | JNull | JObject "(string \<times> jsvalue) list"

record EmigrationData =
  Year :: number
  categories :: "(string \<times> jsvalue) list"

definition Object_entries :: "EmigrationData \<Rightarrow> (string \<times> jsvalue) list" where
  "Object_entries yearData = (''Year'', JNumber (Year yearData)) # categories yearData"

text \<open>
  The operator \<open>+\<close> of \<^verbatim>\<open>totalEmigrants += emigrants\<close>: an object becomes the string
  \<open>[object Object]\<close>; if one side is then a string the two sides are concatenated as
  strings, otherwise they are added as numbers (null is \<open>0\<close>, true is \<open>1\<close>). The conversion
  of a number to a string is the parameter \<open>str\<close>.
\<close>

fun to_primitive :: "jsvalue \<Rightarrow> jsvalue" where
  "to_primitive (JObject props) = JString ''[object Object]''"
| "to_primitive v = v"

fun to_string :: "(number \<Rightarrow> string) \<Rightarrow> jsvalue \<Rightarrow> string" where
  "to_string str (JNumber n) = str n"
| "to_string str (JString s) = s"
| "to_string str (JBool b) = (if b then ''true'' else ''false'')"
| "to_string str JNull = ''null''"
| "to_string str (JObject props) = ''[object Object]''"

text \<open>
  \<open>ToNumber\<close>, which every arithmetic use of a value applies; the conversion of a string
  to a number is the parameter \<open>num\<close>.
\<close>

fun to_number :: "(string \<Rightarrow> number) \<Rightarrow> jsvalue \<Rightarrow> number" where
  "to_number num (JNumber n) = n"
| "to_number num (JString s) = num s"
| "to_number num (JBool b) = Val (if b then 1 else 0)"
| "to_number num JNull = Val 0"
| "to_number num (JObject props) = num ''[object Object]''"

text \<open>\<open>ToNumber\<close> of a primitive value that is not a string.\<close>

fun primitive_number :: "jsvalue \<Rightarrow> number" where
  "primitive_number (JNumber n) = n"
| "primitive_number (JBool b) = Val (if b then 1 else 0)"
| "primitive_number JNull = Val 0"
| "primitive_number v = NaN"

fun is_string :: "jsvalue \<Rightarrow> bool" where
  "is_string (JString s) = True"
| "is_string v = False"

definition js_plus :: "(number \<Rightarrow> string) \<Rightarrow> jsvalue \<Rightarrow> jsvalue \<Rightarrow> jsvalue" where
  "js_plus str a b =
     (let pa = to_primitive a; pb = to_primitive b
      in if is_string pa then JString (to_string str pa @ to_string str pb)
         else if is_string pb then JString (to_string str pa @ to_string str pb)
         else JNumber (num_add (primitive_number pa) (primitive_number pb)))"

definition emigrants_of :: "jsvalue \<Rightarrow> jsvalue" where
  "emigrants_of v =
     (case v of
        JObject props \<Rightarrow>
          (case map_of props ''emigrants'' of Some e \<Rightarrow> e | None \<Rightarrow> JNumber (Val 0))
      | _ \<Rightarrow> JNumber (Val 0))"

definition totalEmigrants :: "(number \<Rightarrow> string) \<Rightarrow> EmigrationData \<Rightarrow> jsvalue" where
  "totalEmigrants str yearData =
     foldl (\<lambda>total (key, v).
              if key = ''Year'' then total else js_plus str total (emigrants_of v))
       (JNumber (Val 0)) (Object_entries yearData)"

definition extractTimeSeriesData ::
  "(number \<Rightarrow> string) \<Rightarrow> EmigrationData list \<Rightarrow> jsvalue list" where
  "extractTimeSeriesData str emigrationData = map (totalEmigrants str) emigrationData"

text \<open>
  The array is declared \<open>number[]\<close>, and everything the pipeline does with its elements is
  arithmetic (\<open>Math.min\<close>, \<open>Math.max\<close>, subtraction, \<open>Math.round\<close>): the pipeline reads the
  series through \<open>ToNumber\<close>.
\<close>

definition ToNumbers :: "(string \<Rightarrow> number) \<Rightarrow> jsvalue list \<Rightarrow> number list" where
  "ToNumbers num xs = map (to_number num) xs"

text \<open>
  The sibling aggregator \<^verbatim>\<open>aggregateData\<close> of \<^verbatim>\<open>src/routes/relationships.tsx\<close> (the totals
  per category; \<^verbatim>\<open>unnamed/part_001\<close> has the same loop): it reads the \<open>emigrants\<close> property
  the same way, with \<open>null\<close> where there is none, and adds it only under the test
  \<^verbatim>\<open>emigrants && typeof emigrants === "number" && emigrants > 0\<close>. The year filter is a
  number or \<open>"all"\<close> (\<open>None\<close>); \<open>===\<close> on numbers is false on NaN.
\<close>

fun num_eq :: "number \<Rightarrow> number \<Rightarrow> bool" where
  "num_eq NaN b = False"
| "num_eq a NaN = False"
| "num_eq a b = (a = b)"

definition emigrants_or_null :: "jsvalue \<Rightarrow> jsvalue" where
  "emigrants_or_null v =
     (case v of
        JObject props \<Rightarrow> (case map_of props ''emigrants'' of Some e \<Rightarrow> e | None \<Rightarrow> JNull)
      | _ \<Rightarrow> JNull)"

definition positive_number :: "jsvalue \<Rightarrow> number option" where
  "positive_number e =
     (case e of
        JNumber n \<Rightarrow> (if truthy n then (if num_less (Val 0) n then Some n else None) else None)
      | _ \<Rightarrow> None)"

definition aggregateData ::
  "EmigrationData list \<Rightarrow> number option \<Rightarrow> (string \<rightharpoonup> number)" where
  "aggregateData data yearFilter =
     foldl (\<lambda>aggregated doc.
        if (case yearFilter of None \<Rightarrow> True | Some y \<Rightarrow> num_eq (Year doc) y)
        then foldl (\<lambda>agg (key, v).
               if key = ''Year'' then agg
               else (case positive_number (emigrants_or_null v) of
                       Some n \<Rightarrow>
                         agg (key \<mapsto> num_add (case agg key of
                                                    None \<Rightarrow> Val 0
                                                  | Some t \<Rightarrow> if truthy t then t else Val 0) n)
                     | None \<Rightarrow> agg))
             aggregated (Object_entries doc)
        else aggregated)
       Map.empty data"

section \<open>Candidate trainer\<close>

text \<open>
  The LSTM of TensorFlow.js is opaque. A trained model is a predictor from a window to a
  number, \<open>None\<close> where the library throws (a window of the wrong shape). Fitting takes
  the configuration, the training and the validation sequences and gives a predictor, or
  \<open>None\<close> where building the tensors or the fit throws. The persistence fields of a model
  (\<open>id\<close>, \<open>trainedAt\<close>, \<open>dataset\<close>) are left out.
\<close>

type_synonym predictor = "number list \<Rightarrow> number option"

type_synonym fitter =
  "nat \<Rightarrow> nat \<Rightarrow> number \<Rightarrow> number sequences \<Rightarrow> number sequences \<Rightarrow> predictor option"

record LSTMModel =
  modelName :: string
  lookback :: nat
  lstmNeurons :: nat
  dropout :: number
  mae :: "number option"
  accuracy :: "number option"
  trained :: bool
  trainedModel :: "predictor option"
  testResults :: "(number list \<times> number list) option"
  normalizationParams :: "(number \<times> number) option"

text \<open>\<open>xs.map((x, i) => ...)\<close> and \<open>xs.reduce((acc, x, i) => ..., init)\<close> with the index.\<close>

definition map_index :: "('a \<Rightarrow> nat \<Rightarrow> 'b) \<Rightarrow> 'a list \<Rightarrow> 'b list" where
  "map_index f xs = map (\<lambda>(x, i). f x i) (zip xs [0..<length xs])"

definition reduce_index :: "('b \<Rightarrow> 'a \<Rightarrow> nat \<Rightarrow> 'b) \<Rightarrow> 'b \<Rightarrow> 'a list \<Rightarrow> 'b" where
  "reduce_index f init xs = foldl (\<lambda>acc (x, i). f acc x i) init (zip xs [0..<length xs])"

text \<open>\<open>parseFloat(x.toFixed(2))\<close>: two decimals, a tie going up.\<close>

fun toFixed2 :: "number \<Rightarrow> number" where
  "toFixed2 (Val a) = Val (of_int \<lfloor>a * 100 + 1 / 2\<rfloor> / 100)"
| "toFixed2 x = x"

definition meanAbsoluteError :: "number list \<Rightarrow> number list \<Rightarrow> number" where
  "meanAbsoluteError denormPred denormActual =
     num_div
       (reduce_index (\<lambda>sum pred i. num_add sum (Math_abs (num_sub pred (at_num denormActual i))))
          (Val 0) denormPred)
       (Val (real (length denormPred)))"

definition percentageErrors :: "number list \<Rightarrow> number list \<Rightarrow> number list" where
  "percentageErrors denormPred denormActual =
     map_index (\<lambda>pred i.
        let err = num_div (Math_abs (num_sub pred (at_num denormActual i))) (at_num denormActual i)
        in Math_max2 (Val 0) (num_sub (Val 1) err)) denormPred"

definition accuracyPercent :: "number list \<Rightarrow> number list \<Rightarrow> number" where
  "accuracyPercent denormPred denormActual =
     (let pe = percentageErrors denormPred denormActual
      in num_mul (num_div (foldl num_add (Val 0) pe) (Val (real (length pe)))) (Val 100))"

text \<open>
  The accuracy as the specification words it: the average of the same term over the test
  points whose actual value is not zero.
\<close>

definition accuracy_spec :: "number list \<Rightarrow> number list \<Rightarrow> number" where
  "accuracy_spec denormPred denormActual =
     (let pts = filter (\<lambda>(p, a). a \<noteq> Val 0) (zip denormPred denormActual);
          terms = map (\<lambda>(p, a). Math_max2 (Val 0)
                     (num_sub (Val 1) (num_div (Math_abs (num_sub p a)) a))) pts
      in num_mul (num_div (foldl num_add (Val 0) terms) (Val (real (length terms)))) (Val 100))"

text \<open>
  The 80/20 split of \<^verbatim>\<open>trainSingleModel\<close> and \<^verbatim>\<open>trainModel\<close>: the normalized series is
  cut at \<open>Math.floor(length * 0.8)\<close>, and each part is windowed on its own.
  \<open>Math.floor(n * 0.8)\<close> is \<open>4 * n div 5\<close> on array lengths.
\<close>

record split_sequences =
  trainSeq :: "number sequences"
  testSeq :: "number sequences"
  split_min :: number
  split_max :: number

definition trainTestSequences :: "number list \<Rightarrow> nat \<Rightarrow> split_sequences" where
  "trainTestSequences timeSeriesData lb =
     (let nz = normalizeData timeSeriesData;
          splitIndex = (length (normalized nz) * 4) div 5;
          trainData = slice (normalized nz) 0 (int splitIndex);
          testData = slice_from (normalized nz) (int splitIndex)
      in \<lparr> trainSeq = createSequences trainData lb,
           testSeq = createSequences testData lb,
           split_min = nmin nz, split_max = nmax nz \<rparr>)"

text \<open>
  \<^verbatim>\<open>trainSingleModel\<close> of the grid-search variant (\<^verbatim>\<open>unnamed/part_002\<close>): it builds the series,
  throws on one shorter than the lookback plus ten, splits, fits, predicts the test windows
  and returns a new model record with the metrics. It has no check of its own that the data
  is loaded: its caller \<^verbatim>\<open>autoTuneModels\<close> makes that check. Every error thrown inside it is
  caught by the caller, which logs it and goes on to the next combination.
\<close>

definition trainSingleModel ::
  "(number \<Rightarrow> string) \<Rightarrow> (string \<Rightarrow> number) \<Rightarrow> fitter \<Rightarrow> EmigrationData list
     \<Rightarrow> nat \<Rightarrow> nat \<Rightarrow> number \<Rightarrow> string \<Rightarrow> error + LSTMModel" where
  "trainSingleModel str num fit emigrationData lb neurons dr name =
     (let timeSeriesData = extractTimeSeriesData str emigrationData
      in if length timeSeriesData < lb + 10 then Inl (NotEnoughData (lb + 10))
         else
           let sp = trainTestSequences (ToNumbers num timeSeriesData) lb
           in case fit lb neurons dr (trainSeq sp) (testSeq sp) of
                None \<Rightarrow> Inl TrainingFailed
              | Some lstmModel \<Rightarrow>
                 (case those (map lstmModel (seq_X (testSeq sp))) of
                    None \<Rightarrow> Inl TrainingFailed
                  | Some predArray \<Rightarrow>
                     let denormPred = denormalizeData predArray (split_min sp) (split_max sp);
                         denormActual =
                           denormalizeData (seq_y (testSeq sp)) (split_min sp) (split_max sp)
                     in Inr \<lparr> modelName = name, lookback = lb, lstmNeurons = neurons,
                              dropout = dr,
                              mae = Some (toFixed2 (meanAbsoluteError denormPred denormActual)),
                              accuracy = Some (toFixed2 (accuracyPercent denormPred denormActual)),
                              trained = True, trainedModel = Some lstmModel,
                              testResults = Some (denormActual, denormPred),
                              normalizationParams = Some (split_min sp, split_max sp) \<rparr>))"

text \<open>
  \<^verbatim>\<open>trainModel\<close> of \<^verbatim>\<open>src/routes/ml.tsx\<close>: it first alerts and returns when the data is not
  loaded or is empty (the test \<^verbatim>\<open>!dataLoaded || emigrationData.length === 0\<close> is written
  as its two short-circuit steps); reading the configuration \<open>models[index]\<close> outside the
  array throws before the \<open>try\<close> block; then it runs the steps of \<^verbatim>\<open>trainSingleModel\<close> and
  writes the metrics, the trained model, the test results and the normalization
  parameters into \<open>models[index]\<close>. The result is the new \<open>models\<close> array; an error caught
  by the \<open>try\<close> block is shown in an alert and leaves the array as it was.
\<close>

definition trainModel ::
  "(number \<Rightarrow> string) \<Rightarrow> (string \<Rightarrow> number) \<Rightarrow> fitter \<Rightarrow> bool \<Rightarrow> EmigrationData list
     \<Rightarrow> LSTMModel list \<Rightarrow> nat \<Rightarrow> error + LSTMModel list" where
  "trainModel str num fit dataLoaded emigrationData ms index =
     (if \<not> dataLoaded then Inl (Alert ''Emigration data not loaded yet. Please wait...'')
      else if length emigrationData = 0
      then Inl (Alert ''Emigration data not loaded yet. Please wait...'')
      else if length ms \<le> index then Inl Uncaught
      else
        let modelConfig = ms ! index;
            timeSeriesData = extractTimeSeriesData str emigrationData
        in if length timeSeriesData < lookback modelConfig + 10
           then Inl (NotEnoughData (lookback modelConfig + 10))
           else
             let sp = trainTestSequences (ToNumbers num timeSeriesData) (lookback modelConfig)
             in case fit (lookback modelConfig) (lstmNeurons modelConfig) (dropout modelConfig)
                       (trainSeq sp) (testSeq sp) of
                  None \<Rightarrow> Inl TrainingFailed
                | Some lstmModel \<Rightarrow>
                   (case those (map lstmModel (seq_X (testSeq sp))) of
                      None \<Rightarrow> Inl TrainingFailed
                    | Some predArray \<Rightarrow>
                       let denormPred = denormalizeData predArray (split_min sp) (split_max sp);
                           denormActual =
                             denormalizeData (seq_y (testSeq sp)) (split_min sp) (split_max sp)
                       in Inr (ms [index := modelConfig
                            \<lparr> mae := Some (toFixed2 (meanAbsoluteError denormPred denormActual)),
                              accuracy := Some (toFixed2 (accuracyPercent denormPred denormActual)),
                              trained := True, trainedModel := Some lstmModel,
                              testResults := Some (denormActual, denormPred),
                              normalizationParams := Some (split_min sp, split_max sp) \<rparr>])))"

section \<open>Tuning controller\<close>

record hyperparameters =
  hp_lookback :: "nat list"
  hp_lstmNeurons :: "nat list"
  hp_dropout :: "number list"

definition HYPERPARAMETERS :: hyperparameters where
  "HYPERPARAMETERS =
     \<lparr> hp_lookback = [3], hp_lstmNeurons = [32, 50, 64, 100], hp_dropout = [Val (1 / 10)] \<rparr>"

record combination =
  c_lookback :: nat
  c_neurons :: nat
  c_dropout :: number

text \<open>The three nested \<open>forEach\<close> loops that push every combination.\<close>

definition combinations :: "hyperparameters \<Rightarrow> combination list" where
  "combinations hp =
     concat (map (\<lambda>lb.
       concat (map (\<lambda>neurons.
         map (\<lambda>d. \<lparr> c_lookback = lb, c_neurons = neurons, c_dropout = d \<rparr>) (hp_dropout hp))
       (hp_lstmNeurons hp)))
     (hp_lookback hp))"

text \<open>
  Template strings render numbers with JavaScript's number-to-string conversion, which is
  a parameter \<open>str\<close> of the model.
\<close>

definition configName :: "(number \<Rightarrow> string) \<Rightarrow> combination \<Rightarrow> string" where
  "configName str c =
     ''L'' @ str (Val (real (c_lookback c))) @ ''_N'' @ str (Val (real (c_neurons c)))
       @ ''_D'' @ str (c_dropout c)"

definition configDescription :: "(number \<Rightarrow> string) \<Rightarrow> combination \<Rightarrow> string" where
  "configDescription str c =
     ''Lookback: '' @ str (Val (real (c_lookback c))) @ '', Neurons: ''
       @ str (Val (real (c_neurons c))) @ '', Dropout: '' @ str (c_dropout c)"

record TuningProgress =
  current :: nat
  total :: nat
  currentConfig :: string
  bestSoFar :: "(number \<times> string) option"

text \<open>\<open>model.accuracy || 0\<close>: null, zero and NaN become \<open>0\<close>.\<close>

definition orZero :: "number option \<Rightarrow> number" where
  "orZero a = (case a of None \<Rightarrow> Val 0 | Some x \<Rightarrow> if truthy x then x else Val 0)"

record tuning_state =
  allModels :: "LSTMModel list"
  bestAccuracy :: number
  bestConfig :: string
  progress :: "TuningProgress list"

text \<open>
  One pass of the loop over \<open>combinations\<close>, for the combination at index \<open>i\<close>: the progress
  is published, the candidate is trained, a success is pushed and compared with the best
  so far, a failure is logged and skipped.
\<close>

definition tuneStep ::
  "(number \<Rightarrow> string) \<Rightarrow> (string \<Rightarrow> number) \<Rightarrow> fitter \<Rightarrow> EmigrationData list \<Rightarrow> nat
     \<Rightarrow> tuning_state \<Rightarrow> nat \<times> combination \<Rightarrow> tuning_state" where
  "tuneStep str num fit emigrationData totalCombinations st ic =
     (let i = fst ic; c = snd ic;
          name = configName str c;
          st1 = st \<lparr> progress := progress st @
                  [\<lparr> current = i + 1, total = totalCombinations,
                     currentConfig = configDescription str c,
                     bestSoFar = (if num_less (Val 0) (bestAccuracy st)
                                  then Some (bestAccuracy st, bestConfig st) else None) \<rparr>] \<rparr>
      in case trainSingleModel str num fit emigrationData (c_lookback c) (c_neurons c)
                (c_dropout c) name of
           Inr model \<Rightarrow>
             (let st2 = st1 \<lparr> allModels := allModels st1 @ [model] \<rparr>
              in if num_less (bestAccuracy st2) (orZero (accuracy model))
                 then st2 \<lparr> bestAccuracy := orZero (accuracy model), bestConfig := name \<rparr>
                 else st2)
         | Inl err \<Rightarrow> st1)"

text \<open>
  \<open>Array.prototype.sort\<close> is stable: an element moves behind another one exactly when
  the comparator is positive on the pair. It is modelled as a stable insertion sort.
\<close>

fun js_insert :: "('a \<Rightarrow> 'a \<Rightarrow> number) \<Rightarrow> 'a \<Rightarrow> 'a list \<Rightarrow> 'a list" where
  "js_insert cmp x [] = [x]"
| "js_insert cmp x (y # ys) =
     (if num_less (Val 0) (cmp x y) then y # js_insert cmp x ys else x # y # ys)"

definition js_sort :: "('a \<Rightarrow> 'a \<Rightarrow> number) \<Rightarrow> 'a list \<Rightarrow> 'a list" where
  "js_sort cmp xs = foldr (js_insert cmp) xs []"

definition byAccuracyDesc :: "LSTMModel \<Rightarrow> LSTMModel \<Rightarrow> number" where
  "byAccuracyDesc a b = num_sub (orZero (accuracy b)) (orZero (accuracy a))"

record tuning_result =
  models :: "LSTMModel list"
  bestModel :: "LSTMModel option"
  tuningEvents :: "TuningProgress list"

text \<open>
  \<^verbatim>\<open>autoTuneModels\<close>: \<open>None\<close> is the early return while the data is not loaded; no state
  is written then. Otherwise \<open>models\<close> is the sorted array given to \<open>setModels\<close>, \<open>bestModel\<close>
  the model given to \<open>setBestModel\<close> (\<open>None\<close> when no candidate succeeded and it is not
  called), and \<open>tuningEvents\<close> the progress published before each attempt.
\<close>

definition autoTuneModels ::
  "(number \<Rightarrow> string) \<Rightarrow> (string \<Rightarrow> number) \<Rightarrow> fitter \<Rightarrow> bool \<Rightarrow> EmigrationData list
     \<Rightarrow> tuning_result option" where
  "autoTuneModels str num fit dataLoaded emigrationData =
     (if \<not> dataLoaded \<or> length emigrationData = 0 then None
      else
        let combos = combinations HYPERPARAMETERS;
            totalCombinations = length combos;
            st = foldl (tuneStep str num fit emigrationData totalCombinations)
                   \<lparr> allModels = [], bestAccuracy = Val 0, bestConfig = [], progress = [] \<rparr>
                   (zip [0..<length combos] combos);
            sorted_models = js_sort byAccuracyDesc (allModels st)
        in Some \<lparr> models = sorted_models,
                  bestModel = (if 0 < length sorted_models then Some (sorted_models ! 0) else None),
                  tuningEvents = progress st \<rparr>)"

text \<open>
  The order of the search result as the specification words it: accuracy descending,
  ties broken by the lower mean absolute error.
\<close>

definition spec_before :: "LSTMModel \<Rightarrow> LSTMModel \<Rightarrow> bool" where
  "spec_before a b =
     (num_less (orZero (accuracy b)) (orZero (accuracy a))
      \<or> (orZero (accuracy a) = orZero (accuracy b)
          \<and> \<not> num_less (orZero (mae b)) (orZero (mae a))))"

definition spec_ordered :: "LSTMModel list \<Rightarrow> bool" where
  "spec_ordered ms = sorted_wrt spec_before ms"

section \<open>Forecast engine\<close>

text \<open>
  The autoregressive loop \<^verbatim>\<open>for (let i = 0; i < forecastYears; i++)\<close>, as a recursion on
  the number of passes left: the model predicts from \<open>currentSequence\<close>, the prediction is
  pushed, and the sequence becomes \<open>[...currentSequence.slice(1), predValue]\<close>. A throwing
  prediction ends the loop with \<open>None\<close>. The horizon \<open>forecastYears\<close> is a natural number.
\<close>

fun forecastLoop ::
  "predictor \<Rightarrow> nat \<Rightarrow> number list \<Rightarrow> number list \<Rightarrow> number list option" where
  "forecastLoop predict 0 currentSequence predictions = Some predictions"
| "forecastLoop predict (Suc n) currentSequence predictions =
     (case predict currentSequence of
        None \<Rightarrow> None
      | Some predValue \<Rightarrow>
          forecastLoop predict n (slice_from currentSequence 1 @ [predValue])
            (predictions @ [predValue]))"

record row =
  year :: number
  actual :: "number option"
  predicted :: "number option"
  row_type :: string

record ForecastResults =
  forecasts :: "row list"
  historical :: "row list"
  combined :: "row list"

text \<open>\<open>xs[k]\<close> for a possibly negative index, used as a number.\<close>

definition at_int :: "number list \<Rightarrow> int \<Rightarrow> number" where
  "at_int xs k = (if 0 \<le> k \<and> nat k < length xs then xs ! nat k else NaN)"

text \<open>
  The part shared by both variants of \<^verbatim>\<open>generateForecast\<close>, inside their \<open>try\<close> block: the
  series is extracted and normalized again, the loop runs, the predictions are
  denormalized with the \<open>min\<close> and \<open>max\<close> of that normalization, and the forecast and the
  recent historical rows are built. Reading \<open>Year\<close> of the last record of an empty array
  throws.
\<close>

definition forecastRows ::
  "(number \<Rightarrow> string) \<Rightarrow> (string \<Rightarrow> number) \<Rightarrow> predictor \<Rightarrow> nat \<Rightarrow> EmigrationData list
     \<Rightarrow> nat \<Rightarrow> (row list \<times> row list) option" where
  "forecastRows str num predict lb emigrationData forecastYears =
     (let timeSeriesData = ToNumbers num (extractTimeSeriesData str emigrationData);
          nz = normalizeData timeSeriesData;
          currentSequence = slice_from (normalized nz) (- int lb)
      in case forecastLoop predict forecastYears currentSequence [] of
           None \<Rightarrow> None
         | Some predictions \<Rightarrow>
            (let denormalizedPredictions = denormalizeData predictions (nmin nz) (nmax nz)
             in if emigrationData = [] then None
                else
                  let lastYear = Year (emigrationData ! (length emigrationData - 1));
                      forecastData = map_index (\<lambda>v index.
                          \<lparr> year = num_add (num_add lastYear (Val (real index))) (Val 1),
                            actual = None, predicted = Some (Math_round v),
                            row_type = ''forecast'' \<rparr>) denormalizedPredictions;
                      recentHistorical = map_index (\<lambda>yearData index.
                          \<lparr> year = Year yearData,
                            actual = Some (Math_round (at_int timeSeriesData
                                       (int (length timeSeriesData) - 10 + int index))),
                            predicted = None, row_type = ''historical'' \<rparr>)
                          (slice_from emigrationData (- 10))
                  in Some (forecastData, recentHistorical)))"

text \<open>
  \<^verbatim>\<open>generateForecast\<close> of \<^verbatim>\<open>src/routes/ml.tsx\<close>: the selected model must be trained and must
  carry its normalization parameters (the test \<^verbatim>\<open>!model.trained || !model.trainedModel\<close>
  is written as its two short-circuit steps). Reading a model outside the array throws
  before the \<open>try\<close> block.
\<close>

definition generateForecast_manual ::
  "(number \<Rightarrow> string) \<Rightarrow> (string \<Rightarrow> number) \<Rightarrow> LSTMModel list \<Rightarrow> nat option
     \<Rightarrow> EmigrationData list \<Rightarrow> nat \<Rightarrow> error + ForecastResults" where
  "generateForecast_manual str num ms selectedModelIndex emigrationData forecastYears =
     (case selectedModelIndex of
        None \<Rightarrow> Inl (Alert ''Please select a trained model first!'')
      | Some idx \<Rightarrow>
         if length ms \<le> idx then Inl ForecastFailed
         else
           let model = ms ! idx
           in if \<not> trained model then Inl (Alert ''Please train the model first!'')
              else if trainedModel model = None then Inl (Alert ''Please train the model first!'')
              else if normalizationParams model = None
              then Inl (Alert ''Model missing normalization parameters. Please retrain the model.'')
              else
                (case forecastRows str num (the (trainedModel model)) (lookback model)
                        emigrationData forecastYears of
                   None \<Rightarrow> Inl ForecastFailed
                 | Some (forecastData, recentHistorical) \<Rightarrow>
                     Inr \<lparr> forecasts = forecastData, historical = recentHistorical,
                           combined = recentHistorical @ forecastData \<rparr>))"

text \<open>
  \<^verbatim>\<open>generateForecast\<close> of the grid-search variant: the best model of the search is used,
  and the last historical row becomes a \<open>connection\<close> row of the combined table.
\<close>

definition generateForecast_auto ::
  "(number \<Rightarrow> string) \<Rightarrow> (string \<Rightarrow> number) \<Rightarrow> LSTMModel option \<Rightarrow> EmigrationData list
     \<Rightarrow> nat \<Rightarrow> error + ForecastResults" where
  "generateForecast_auto str num best emigrationData forecastYears =
     (case best of
        None \<Rightarrow> Inl (Alert ''Please wait for auto-training to complete first!'')
      | Some bm \<Rightarrow>
         (case trainedModel bm of
            None \<Rightarrow> Inl (Alert ''Please wait for auto-training to complete first!'')
          | Some predict \<Rightarrow>
             (case forecastRows str num predict (lookback bm) emigrationData forecastYears of
                None \<Rightarrow> Inl ForecastFailed
              | Some (forecastData, recentHistorical) \<Rightarrow>
                 (if recentHistorical = [] then Inl ForecastFailed
                  else
                    let lastHistorical = recentHistorical ! (length recentHistorical - 1)
                    in Inr \<lparr> forecasts = forecastData, historical = recentHistorical,
                             combined =
                               map (\<lambda>h. h \<lparr> predicted := None \<rparr>) (slice recentHistorical 0 (- 1))
                               @ [\<lparr> year = year lastHistorical, actual = actual lastHistorical,
                                     predicted = actual lastHistorical,
                                     row_type = ''connection'' \<rparr>]
                               @ map (\<lambda>f. f \<lparr> actual := None \<rparr>) forecastData \<rparr>))))"

section \<open>Export\<close>

text \<open>
  A CSV cell before \<open>join\<close>: a number, a string, or \<open>undefined\<close>, which \<open>join\<close> renders as
  the empty string.
\<close>

datatype cell = CNumber number | CString string | CUndefined

definition cell_text :: "(number \<Rightarrow> string) \<Rightarrow> cell \<Rightarrow> string" where
  "cell_text str c = (case c of CNumber n \<Rightarrow> str n | CString s \<Rightarrow> s | CUndefined \<Rightarrow> [])"

fun join :: "string \<Rightarrow> string list \<Rightarrow> string" where
  "join sep [] = []"
| "join sep [x] = x"
| "join sep (x # xs) = x @ sep @ join sep xs"

text \<open>\<open>row.actual || row.predicted\<close>.\<close>

definition value_cell :: "row \<Rightarrow> cell" where
  "value_cell r =
     (case actual r of
        Some a \<Rightarrow> if truthy a then CNumber a
                  else (case predicted r of Some p \<Rightarrow> CNumber p | None \<Rightarrow> CUndefined)
      | None \<Rightarrow> (case predicted r of Some p \<Rightarrow> CNumber p | None \<Rightarrow> CUndefined))"

definition row_cells :: "row \<Rightarrow> cell list" where
  "row_cells r = [CNumber (year r), value_cell r, CString (row_type r)]"

definition csv_of :: "(number \<Rightarrow> string) \<Rightarrow> row list \<Rightarrow> string" where
  "csv_of str rows =
     join [CHR 0x0A]
       (map (join '','')
          ([''Year'', ''Emigrants'', ''Type''] # map (\<lambda>r. map (cell_text str) (row_cells r)) rows))"

text \<open>
  \<^verbatim>\<open>exportForecast\<close> of both variants: nothing without forecast results; the grid-search
  variant leaves the \<open>connection\<close> row out.
\<close>

definition exportForecast_manual ::
  "(number \<Rightarrow> string) \<Rightarrow> ForecastResults option \<Rightarrow> string option" where
  "exportForecast_manual str forecastResults =
     (case forecastResults of None \<Rightarrow> None | Some fr \<Rightarrow> Some (csv_of str (combined fr)))"

definition exportForecast_auto ::
  "(number \<Rightarrow> string) \<Rightarrow> ForecastResults option \<Rightarrow> string option" where
  "exportForecast_auto str forecastResults =
     (case forecastResults of
        None \<Rightarrow> None
      | Some fr \<Rightarrow> Some (csv_of str (filter (\<lambda>r. row_type r \<noteq> ''connection'') (combined fr))))"

section \<open>Properties of the window builder\<close>

lemma createSequences_loop_closed:
  "createSequences_loop data L i acc =
     \<lparr> seq_X = seq_X acc @ map (\<lambda>j. slice data (int j - int L) (int j)) [i..<length data],
       seq_y = seq_y acc @ map (\<lambda>j. data ! j) [i..<length data] \<rparr>"
proof (induction data L i acc rule: createSequences_loop.induct)
  case (1 data L i acc)
  show ?case
  proof (cases "i < length data")
    case True
    then show ?thesis
      using "1.IH" [OF True]
      by (subst createSequences_loop.simps) (simp add: upt_conv_Cons)
  next
    case False
    then show ?thesis
      by (subst createSequences_loop.simps) simp
  qed
qed

lemma slice_window:
  "L \<le> j \<Longrightarrow> j \<le> length data \<Longrightarrow> slice data (int j - int L) (int j) = take L (drop (j - L) data)"
proof -
  assume a: "L \<le> j" "j \<le> length data"
  have 1: "rel_index (length data) (int j - int L) = j - L"
  proof -
    have "int j - int L = int (j - L)" using a by simp
    then show ?thesis using a by (simp add: rel_index_def del: of_nat_diff)
  qed
  have 2: "rel_index (length data) (int j) = j"
    using a by (simp add: rel_index_def)
  have 3: "j - (j - L) = L" using a by simp
  show ?thesis by (simp add: slice_def 1 2 3)
qed

lemma createSequences_closed:
  "createSequences data L =
     \<lparr> seq_X = map (\<lambda>k. take L (drop k data)) [0..<length data - L],
       seq_y = map (\<lambda>k. data ! (k + L)) [0..<length data - L] \<rparr>"
proof -
  have idx: "[L..<length data] = map (\<lambda>k. k + L) [0..<length data - L]"
    by (cases "L \<le> length data") (simp_all add: map_add_upt)
  have X: "map (\<lambda>j. slice data (int j - int L) (int j)) [L..<length data]
        = map (\<lambda>j. take L (drop (j - L) data)) [L..<length data]"
    by (rule map_cong) (simp_all add: slice_window)
  have X': "map (\<lambda>j. take L (drop (j - L) data)) [L..<length data]
        = map (\<lambda>k. take L (drop k data)) [0..<length data - L]"
    by (subst idx) (simp add: comp_def)
  have Y: "map (\<lambda>j. data ! j) [L..<length data] = map (\<lambda>k. data ! (k + L)) [0..<length data - L]"
    by (subst idx) (simp add: comp_def)
  have "createSequences data L =
     \<lparr> seq_X = map (\<lambda>j. slice data (int j - int L) (int j)) [L..<length data],
       seq_y = map (\<lambda>j. data ! j) [L..<length data] \<rparr>"
    unfolding createSequences_def createSequences_loop_closed by simp
  then show ?thesis
    unfolding X X' Y .
qed

lemma length_createSequences:
  "length (seq_X (createSequences data L)) = length data - L"
  "length (seq_y (createSequences data L)) = length data - L"
  by (simp_all add: createSequences_closed)

lemma length_normalizeData: "length (normalized (normalizeData data)) = length data"
  by (simp add: normalizeData_def Let_def)

lemma length_extractTimeSeriesData:
  "length (extractTimeSeriesData str emigrationData) = length emigrationData"
  by (simp add: extractTimeSeriesData_def)

lemma length_slice_prefix: "n \<le> length xs \<Longrightarrow> length (slice xs 0 (int n)) = n"
  by (simp add: slice_def rel_index_def)

lemma length_slice_from: "n \<le> length xs \<Longrightarrow> length (slice_from xs (int n)) = length xs - n"
  by (simp add: slice_from_def rel_index_def)

lemma length_trainTestSequences:
  "length (seq_X (trainSeq (trainTestSequences ts L))) = length ts * 4 div 5 - L"
  "length (seq_X (testSeq (trainTestSequences ts L))) = length ts - length ts * 4 div 5 - L"
proof -
  have le: "length ts * 4 div 5 \<le> length (normalized (normalizeData ts))"
    by (simp add: length_normalizeData)
  show "length (seq_X (trainSeq (trainTestSequences ts L))) = length ts * 4 div 5 - L"
    using length_slice_prefix [OF le]
    by (simp add: trainTestSequences_def Let_def length_createSequences length_normalizeData)
  show "length (seq_X (testSeq (trainTestSequences ts L))) = length ts - length ts * 4 div 5 - L"
    using length_slice_from [OF le]
    by (simp add: trainTestSequences_def Let_def length_createSequences length_normalizeData)
qed

lemma trainSingleModel_short:
  "length emigrationData < L + 10 \<Longrightarrow>
     trainSingleModel str num fit emigrationData L neurons dr name = Inl (NotEnoughData (L + 10))"
  by (simp add: trainSingleModel_def Let_def length_extractTimeSeriesData)

lemma trainModel_short:
  "dataLoaded \<Longrightarrow> emigrationData \<noteq> [] \<Longrightarrow> index < length ms \<Longrightarrow>
   length emigrationData < lookback (ms ! index) + 10 \<Longrightarrow>
     trainModel str num fit dataLoaded emigrationData ms index
       = Inl (NotEnoughData (lookback (ms ! index) + 10))"
  by (simp add: trainModel_def Let_def length_extractTimeSeriesData)

lemma trainModel_not_loaded:
  "\<not> dataLoaded \<or> emigrationData = [] \<Longrightarrow>
     trainModel str num fit dataLoaded emigrationData ms index
       = Inl (Alert ''Emigration data not loaded yet. Please wait...'')"
  by (auto simp add: trainModel_def)

lemma autoTuneModels_not_loaded:
  "\<not> dataLoaded \<or> emigrationData = [] \<Longrightarrow>
     autoTuneModels str num fit dataLoaded emigrationData = None"
  by (auto simp add: autoTuneModels_def)

text \<open>
  C1 (amended). For a lookback \<open>L\<close> smaller than the length \<open>M\<close> of the series,
  \<^verbatim>\<open>createSequences\<close> returns exactly \<open>M - L\<close> windows, the \<open>k\<close>-th being the \<open>L\<close> consecutive
  values from position \<open>k\<close> paired with the value that follows them. For \<open>L \<ge> M\<close> it does
  not fail: it returns the empty result. The failure for such a lookback is raised by its
  callers: \<^verbatim>\<open>trainSingleModel\<close> rejects every series shorter than \<open>L + 10\<close>, and so does
  \<^verbatim>\<open>trainModel\<close> once the data is loaded and not empty. While the data is not loaded or
  is empty, \<^verbatim>\<open>trainModel\<close> alerts that the data is not loaded and \<^verbatim>\<open>autoTuneModels\<close> returns
  at once, before any guard on the length.
\<close>

theorem createSequences_windows:
  "(L < length data \<longrightarrow>
      length (seq_X (createSequences data L)) = length data - L
    \<and> length (seq_y (createSequences data L)) = length data - L
    \<and> (\<forall>k < length data - L.
          seq_X (createSequences data L) ! k = take L (drop k data)
        \<and> length (seq_X (createSequences data L) ! k) = L
        \<and> (\<forall>j < L. seq_X (createSequences data L) ! k ! j = data ! (k + j))
        \<and> seq_y (createSequences data L) ! k = data ! (k + L)))
   \<and> (length data \<le> L \<longrightarrow> createSequences data L = \<lparr> seq_X = [], seq_y = [] \<rparr>)
   \<and> (length emigrationData < L + 10 \<longrightarrow>
        trainSingleModel str num fit emigrationData L neurons dr name
          = Inl (NotEnoughData (L + 10)))
   \<and> (dataLoaded \<and> emigrationData \<noteq> [] \<and> index < length ms
        \<and> length emigrationData < lookback (ms ! index) + 10 \<longrightarrow>
        trainModel str num fit dataLoaded emigrationData ms index
          = Inl (NotEnoughData (lookback (ms ! index) + 10)))
   \<and> (\<not> dataLoaded \<or> emigrationData = [] \<longrightarrow>
        trainModel str num fit dataLoaded emigrationData ms index
          = Inl (Alert ''Emigration data not loaded yet. Please wait...'')
        \<and> autoTuneModels str num fit dataLoaded emigrationData = None)"
proof (intro conjI impI allI)
  show "length (seq_X (createSequences data L)) = length data - L"
    by (rule length_createSequences)
  show "length (seq_y (createSequences data L)) = length data - L"
    by (rule length_createSequences)
next
  fix k assume "L < length data" and k: "k < length data - L"
  then show "seq_X (createSequences data L) ! k = take L (drop k data)"
    by (simp add: createSequences_closed)
  from k show "length (seq_X (createSequences data L) ! k) = L"
    by (simp add: createSequences_closed)
  from k show "seq_y (createSequences data L) ! k = data ! (k + L)"
    by (simp add: createSequences_closed)
  fix j assume "j < L"
  with k show "seq_X (createSequences data L) ! k ! j = data ! (k + j)"
    by (simp add: createSequences_closed)
next
  assume "length data \<le> L"
  then show "createSequences data L = \<lparr> seq_X = [], seq_y = [] \<rparr>"
    by (simp add: createSequences_closed)
next
  assume "length emigrationData < L + 10"
  then show "trainSingleModel str num fit emigrationData L neurons dr name
               = Inl (NotEnoughData (L + 10))"
    by (simp add: trainSingleModel_short)
next
  assume "dataLoaded \<and> emigrationData \<noteq> [] \<and> index < length ms
          \<and> length emigrationData < lookback (ms ! index) + 10"
  then show "trainModel str num fit dataLoaded emigrationData ms index
               = Inl (NotEnoughData (lookback (ms ! index) + 10))"
    by (simp add: trainModel_short)
next
  assume e: "\<not> dataLoaded \<or> emigrationData = []"
  then show "trainModel str num fit dataLoaded emigrationData ms index
               = Inl (Alert ''Emigration data not loaded yet. Please wait...'')"
    by (rule trainModel_not_loaded)
  from e show "autoTuneModels str num fit dataLoaded emigrationData = None"
    by (rule autoTuneModels_not_loaded)
qed

theorem createSequences_windows_witness:
  "(2::nat) < length [10, 20, 30, 40, 50 :: nat]
   \<and> length (seq_X (createSequences [10, 20, 30, 40, 50 :: nat] 2)) = 3
   \<and> seq_X (createSequences [10, 20, 30, 40, 50 :: nat] 2) ! 1 = [20, 30]
   \<and> seq_y (createSequences [10, 20, 30, 40, 50 :: nat] 2) ! 1 = 40
   \<and> length [10, 20 :: nat] \<le> 3
   \<and> createSequences [10, 20 :: nat] 3 = \<lparr> seq_X = [], seq_y = [] \<rparr>
   \<and> trainSingleModel (\<lambda>n. ''#'') (\<lambda>s. NaN) (\<lambda>lb neurons d tr te. Some (\<lambda>w. Some (Val 0)))
        [\<lparr> Year = Val 2018, categories = [(''USA'', JObject [(''emigrants'', JNumber (Val 5))])] \<rparr>,
         \<lparr> Year = Val 2019, categories = [(''USA'', JObject [(''emigrants'', JNumber (Val 6))])] \<rparr>,
         \<lparr> Year = Val 2020, categories = [(''USA'', JObject [(''emigrants'', JNumber (Val 7))])] \<rparr>]
        3 32 (Val (1 / 10)) ''L3_N32_D0.1'' = Inl (NotEnoughData 13)
   \<and> trainModel (\<lambda>n. ''#'') (\<lambda>s. NaN) (\<lambda>lb neurons d tr te. Some (\<lambda>w. Some (Val 0))) True
        [\<lparr> Year = Val 2018, categories = [(''USA'', JObject [(''emigrants'', JNumber (Val 5))])] \<rparr>,
         \<lparr> Year = Val 2019, categories = [(''USA'', JObject [(''emigrants'', JNumber (Val 6))])] \<rparr>,
         \<lparr> Year = Val 2020, categories = [(''USA'', JObject [(''emigrants'', JNumber (Val 7))])] \<rparr>]
        [\<lparr> modelName = ''Model #1'', lookback = 3, lstmNeurons = 50, dropout = Val (1 / 5),
            mae = None, accuracy = None, trained = False, trainedModel = None,
            testResults = None, normalizationParams = None \<rparr>]
        0 = Inl (NotEnoughData 13)
   \<and> trainModel (\<lambda>n. ''#'') (\<lambda>s. NaN) (\<lambda>lb neurons d tr te. Some (\<lambda>w. Some (Val 0))) True []
        [\<lparr> modelName = ''Model #1'', lookback = 3, lstmNeurons = 50, dropout = Val (1 / 5),
            mae = None, accuracy = None, trained = False, trainedModel = None,
            testResults = None, normalizationParams = None \<rparr>]
        0 = Inl (Alert ''Emigration data not loaded yet. Please wait...'')
   \<and> autoTuneModels (\<lambda>n. ''#'') (\<lambda>s. NaN) (\<lambda>lb neurons d tr te. Some (\<lambda>w. Some (Val 0)))
        True [] = None"
  (is "_ \<and> _ \<and> _ \<and> _ \<and> _ \<and> _ \<and> trainSingleModel ?str ?num ?fit ?ed 3 32 ?d ?name = _
       \<and> trainModel ?str ?num ?fit True ?ed ?ms 0 = _ \<and> _ \<and> _")
proof -
  note w = createSequences_windows [where L = 2 and data = "[10, 20, 30, 40, 50 :: nat]"
             and emigrationData = ?ed and str = ?str and num = ?num and fit = ?fit
             and neurons = 32 and dr = ?d and name = ?name and dataLoaded = True
             and ms = ?ms and index = 0]
  note s = createSequences_windows [where L = 3 and data = "[10, 20 :: nat]"
             and emigrationData = ?ed and str = ?str and num = ?num and fit = ?fit
             and neurons = 32 and dr = ?d and name = ?name and dataLoaded = True
             and ms = ?ms and index = 0]
  note e = createSequences_windows [where L = 3 and data = "[10, 20 :: nat]"
             and emigrationData = "[]" and str = ?str and num = ?num and fit = ?fit
             and neurons = 32 and dr = ?d and name = ?name and dataLoaded = True
             and ms = ?ms and index = 0]
  have 1: "length (seq_X (createSequences [10, 20, 30, 40, 50 :: nat] 2)) = 3
         \<and> seq_X (createSequences [10, 20, 30, 40, 50 :: nat] 2) ! 1 = [20, 30]
         \<and> seq_y (createSequences [10, 20, 30, 40, 50 :: nat] 2) ! 1 = 40"
    using w by (simp add: numeral_2_eq_2)
  have 2: "createSequences [10, 20 :: nat] 3 = \<lparr> seq_X = [], seq_y = [] \<rparr>"
    using s by simp
  have 3: "trainSingleModel ?str ?num ?fit ?ed 3 32 ?d ?name = Inl (NotEnoughData 13)"
    using s by simp
  have 4: "trainModel ?str ?num ?fit True ?ed ?ms 0 = Inl (NotEnoughData 13)"
    using s by simp
  have 5: "trainModel ?str ?num ?fit True [] ?ms 0
             = Inl (Alert ''Emigration data not loaded yet. Please wait...'')
           \<and> autoTuneModels ?str ?num ?fit True [] = None"
    using e by simp
  from 1 2 3 4 5 show ?thesis by simp
qed

text \<open>
  C1 as stated fails: with two values and lookback three the specification's window
  builder reports insufficient data, and \<^verbatim>\<open>createSequences\<close> returns an empty result.
\<close>

theorem createSequences_short_counterexample:
  "buildWindows_spec [10, 20 :: nat] 3 = Inl (NotEnoughData 4)
   \<and> createSequences [10, 20 :: nat] 3 = \<lparr> seq_X = [], seq_y = [] \<rparr>
   \<and> Inr (createSequences [10, 20 :: nat] 3) \<noteq> buildWindows_spec [10, 20 :: nat] 3"
  by (simp add: buildWindows_spec_def createSequences_closed)

section \<open>The 80/20 split\<close>

lemma trainTestSequences_cut:
  "trainSeq (trainTestSequences ts L)
     = createSequences (take (length ts * 4 div 5) (normalized (normalizeData ts))) L"
  "testSeq (trainTestSequences ts L)
     = createSequences (drop (length ts * 4 div 5) (normalized (normalizeData ts))) L"
  by (simp_all add: trainTestSequences_def Let_def slice_def slice_from_def rel_index_def
        length_normalizeData min_def)

text \<open>
  C2 (amended). The split is chronological and made on the normalized series, not on the
  windows: the series is cut at \<open>floor(0.8 * length)\<close> points, the part before the cut is
  windowed into the training set and the most recent tail into the test set. For the
  series \<open>[10,12,11,15,20,18,25,30,28,35]\<close> and lookback 3 the window builder applied to
  the whole series gives 7 windows; the cut is at 8 points, so the training set would be
  the first 5 windows and the test set would be empty (the tail of 2 points is shorter
  than the lookback). The training pipeline, \<^verbatim>\<open>trainSingleModel\<close> as well as \<^verbatim>\<open>trainModel\<close>
  on loaded data, rejects this series before any split, since 10 points are fewer than
  the \<open>3 + 10\<close> its guard requires.
\<close>

theorem split_scenario:
  "trainSeq (trainTestSequences ts L)
     = createSequences (take (length ts * 4 div 5) (normalized (normalizeData ts))) L
   \<and> testSeq (trainTestSequences ts L)
     = createSequences (drop (length ts * 4 div 5) (normalized (normalizeData ts))) L
   \<and> length (seq_X (createSequences (map Val [10, 12, 11, 15, 20, 18, 25, 30, 28, 35]) 3)) = 7
   \<and> normalizeData (map Val [10, 12, 11, 15, 20, 18, 25, 30, 28, 35])
     = \<lparr> normalized = map Val [0, 2 / 25, 1 / 25, 1 / 5, 2 / 5, 8 / 25, 3 / 5, 4 / 5, 18 / 25, 1],
         nmin = Val 10, nmax = Val 35 \<rparr>
   \<and> trainSeq (trainTestSequences (map Val [10, 12, 11, 15, 20, 18, 25, 30, 28, 35]) 3)
     = \<lparr> seq_X = [map Val [0, 2 / 25, 1 / 25], map Val [2 / 25, 1 / 25, 1 / 5],
                  map Val [1 / 25, 1 / 5, 2 / 5], map Val [1 / 5, 2 / 5, 8 / 25],
                  map Val [2 / 5, 8 / 25, 3 / 5]],
         seq_y = map Val [1 / 5, 2 / 5, 8 / 25, 3 / 5, 4 / 5] \<rparr>
   \<and> testSeq (trainTestSequences (map Val [10, 12, 11, 15, 20, 18, 25, 30, 28, 35]) 3)
     = \<lparr> seq_X = [], seq_y = [] \<rparr>
   \<and> ToNumbers num (extractTimeSeriesData str
         (map (\<lambda>(y, v). \<lparr> Year = Val y,
                            categories = [(''USA'', JObject [(''emigrants'', JNumber (Val v))])] \<rparr>)
            [(2011, 10), (2012, 12), (2013, 11), (2014, 15), (2015, 20),
             (2016, 18), (2017, 25), (2018, 30), (2019, 28), (2020, 35)]))
     = map Val [10, 12, 11, 15, 20, 18, 25, 30, 28, 35]
   \<and> trainSingleModel str num fit
         (map (\<lambda>(y, v). \<lparr> Year = Val y,
                            categories = [(''USA'', JObject [(''emigrants'', JNumber (Val v))])] \<rparr>)
            [(2011, 10), (2012, 12), (2013, 11), (2014, 15), (2015, 20),
             (2016, 18), (2017, 25), (2018, 30), (2019, 28), (2020, 35)])
         3 neurons dr name
     = Inl (NotEnoughData 13)
   \<and> trainModel str num fit True
         (map (\<lambda>(y, v). \<lparr> Year = Val y,
                            categories = [(''USA'', JObject [(''emigrants'', JNumber (Val v))])] \<rparr>)
            [(2011, 10), (2012, 12), (2013, 11), (2014, 15), (2015, 20),
             (2016, 18), (2017, 25), (2018, 30), (2019, 28), (2020, 35)])
         [\<lparr> modelName = name, lookback = 3, lstmNeurons = neurons, dropout = dr,
             mae = None, accuracy = None, trained = False, trainedModel = None,
             testResults = None, normalizationParams = None \<rparr>]
         0
     = Inl (NotEnoughData 13)"
  (is "_ \<and> _ \<and> _ \<and> normalizeData ?series = ?nz \<and> _ \<and> _
       \<and> ToNumbers num (extractTimeSeriesData str ?ed) = _ \<and> _ \<and> _")
proof -
  have nz: "normalizeData ?series = ?nz"
    by (simp add: normalizeData_def Let_def Math_min_def Math_max_def num_sub_def)
  have tr: "trainSeq (trainTestSequences ?series 3)
     = \<lparr> seq_X = [map Val [0, 2 / 25, 1 / 25], map Val [2 / 25, 1 / 25, 1 / 5],
                  map Val [1 / 25, 1 / 5, 2 / 5], map Val [1 / 5, 2 / 5, 8 / 25],
                  map Val [2 / 5, 8 / 25, 3 / 5]],
         seq_y = map Val [1 / 5, 2 / 5, 8 / 25, 3 / 5, 4 / 5] \<rparr>"
    unfolding trainTestSequences_cut using nz by (simp add: createSequences_closed)
  have te: "testSeq (trainTestSequences ?series 3) = \<lparr> seq_X = [], seq_y = [] \<rparr>"
    unfolding trainTestSequences_cut using nz by (simp add: createSequences_closed)
  have ser: "ToNumbers num (extractTimeSeriesData str ?ed) = ?series"
    by (simp add: ToNumbers_def extractTimeSeriesData_def totalEmigrants_def Object_entries_def
          emigrants_of_def js_plus_def)
  have t1: "trainSingleModel str num fit ?ed 3 neurons dr name = Inl (NotEnoughData 13)"
    by (simp add: trainSingleModel_short)
  have t2: "trainModel str num fit True ?ed
         [\<lparr> modelName = name, lookback = 3, lstmNeurons = neurons, dropout = dr,
             mae = None, accuracy = None, trained = False, trainedModel = None,
             testResults = None, normalizationParams = None \<rparr>] 0 = Inl (NotEnoughData 13)"
    using trainModel_short [where dataLoaded = True and emigrationData = ?ed and index = 0
        and ms = "[\<lparr> modelName = name, lookback = 3, lstmNeurons = neurons, dropout = dr,
             mae = None, accuracy = None, trained = False, trainedModel = None,
             testResults = None, normalizationParams = None \<rparr>]"]
    by simp
  have w: "length (seq_X (createSequences ?series 3)) = 7"
    by (simp add: length_createSequences)
  show ?thesis
    by (intro conjI) (rule trainTestSequences_cut w nz tr te ser t1 t2)+
qed

text \<open>
  C2 as stated fails: on the series of the scenario the training pipeline produces no
  windows at all, although the fit would succeed: both entry points stop with the
  not-enough-data error.
\<close>

theorem split_scenario_counterexample:
  "trainSingleModel (\<lambda>n. ''#'') (\<lambda>s. NaN) (\<lambda>lb neurons d tr te. Some (\<lambda>w. Some (Val 0)))
         (map (\<lambda>(y, v). \<lparr> Year = Val y,
                            categories = [(''USA'', JObject [(''emigrants'', JNumber (Val v))])] \<rparr>)
            [(2011, 10), (2012, 12), (2013, 11), (2014, 15), (2015, 20),
             (2016, 18), (2017, 25), (2018, 30), (2019, 28), (2020, 35)])
         3 32 (Val (1 / 10)) ''L3_N32_D0.1''
     = Inl (NotEnoughData 13)
   \<and> trainModel (\<lambda>n. ''#'') (\<lambda>s. NaN) (\<lambda>lb neurons d tr te. Some (\<lambda>w. Some (Val 0))) True
         (map (\<lambda>(y, v). \<lparr> Year = Val y,
                            categories = [(''USA'', JObject [(''emigrants'', JNumber (Val v))])] \<rparr>)
            [(2011, 10), (2012, 12), (2013, 11), (2014, 15), (2015, 20),
             (2016, 18), (2017, 25), (2018, 30), (2019, 28), (2020, 35)])
         [\<lparr> modelName = ''Model #1'', lookback = 3, lstmNeurons = 50, dropout = Val (1 / 5),
             mae = None, accuracy = None, trained = False, trainedModel = None,
             testResults = None, normalizationParams = None \<rparr>]
         0
     = Inl (NotEnoughData 13)"
  by (simp add: trainSingleModel_short trainModel_short)

section \<open>Properties of the normalizer\<close>

lemma foldl_min_const: "foldl Math_min2 (Val c) (replicate n (Val c)) = Val c"
  by (induction n) simp_all

lemma foldl_max_const: "foldl Math_max2 (Val c) (replicate n (Val c)) = Val c"
  by (induction n) simp_all

lemma normalizeData_constant:
  "0 < n \<Longrightarrow>
     normalizeData (replicate n (Val c)) = \<lparr> normalized = replicate n NaN, nmin = Val c, nmax = Val c \<rparr>"
proof -
  assume "0 < n"
  then obtain m where n: "n = Suc m" by (cases n) auto
  have mn: "Math_min (replicate n (Val c)) = Val c"
    by (simp add: n Math_min_def foldl_min_const)
  have mx: "Math_max (replicate n (Val c)) = Val c"
    by (simp add: n Math_max_def foldl_max_const)
  show ?thesis
    by (simp add: normalizeData_def Let_def mn mx num_sub_def map_replicate_const)
qed

text \<open>
  C4. The claim asks for a guarded division that yields 0 on a constant series.
  \<^verbatim>\<open>normalizeData\<close> divides \<open>0\<close> by \<open>max - min = 0\<close> instead: every scaled value of the
  constant series \<open>[5, 5, 5]\<close> is NaN.
\<close>

theorem normalizeData_constant_series:
  "normalizeData [Val 5, Val 5, Val 5] = \<lparr> normalized = [NaN, NaN, NaN], nmin = Val 5, nmax = Val 5 \<rparr>"
  by (simp add: normalizeData_def Let_def Math_min_def Math_max_def num_sub_def)











section \<open>Properties of the accuracy metric\<close>

lemma length_map_index: "length (map_index f xs) = length xs"
  by (simp add: map_index_def)

lemma nth_map_index: "i < length xs \<Longrightarrow> map_index f xs ! i = f (xs ! i) i"
  by (simp add: map_index_def)

lemma foldl_num_add_Val: "foldl num_add (Val a) (map Val rs) = Val (a + sum_list rs)"
  by (induction rs arbitrary: a) (simp_all add: add.assoc)

lemma percentage_term:
  "a = 0 \<longrightarrow> p \<noteq> 0 \<Longrightarrow>
     Math_max2 (Val 0) (num_sub (Val 1) (num_div (Math_abs (num_sub (Val p) (Val a))) (Val a)))
       = Val (if a = 0 then 0 else max 0 (1 - \<bar>p - a\<bar> / a))"
  by (auto simp add: num_sub_def max_def)

lemma percentageErrors_Val:
  assumes len: "length acts = length preds"
    and nz: "\<forall>i<length preds. acts ! i = 0 \<longrightarrow> preds ! i \<noteq> 0"
  shows "percentageErrors (map Val preds) (map Val acts)
           = map Val (map (\<lambda>i. if acts ! i = 0 then 0
                                 else max 0 (1 - \<bar>preds ! i - acts ! i\<bar> / (acts ! i)))
                        [0..<length preds])"
proof (rule nth_equalityI)
  show "length (percentageErrors (map Val preds) (map Val acts))
          = length (map Val (map (\<lambda>i. if acts ! i = 0 then 0
                                 else max 0 (1 - \<bar>preds ! i - acts ! i\<bar> / (acts ! i)))
                        [0..<length preds]))"
    by (simp add: percentageErrors_def length_map_index)
next
  fix i assume "i < length (percentageErrors (map Val preds) (map Val acts))"
  then have i: "i < length preds"
    by (simp add: percentageErrors_def length_map_index)
  with nz have "acts ! i = 0 \<longrightarrow> preds ! i \<noteq> 0" by simp
  from percentage_term [OF this] i len
  show "percentageErrors (map Val preds) (map Val acts) ! i
          = map Val (map (\<lambda>i. if acts ! i = 0 then 0
                                 else max 0 (1 - \<bar>preds ! i - acts ! i\<bar> / (acts ! i)))
                        [0..<length preds]) ! i"
    by (simp add: percentageErrors_def nth_map_index at_num_def Let_def)
qed

text \<open>
  C5 (amended). The accuracy is the average over all test points, none excluded, of
  \<open>max(0, 1 - |predicted - actual| / actual) * 100\<close>. A point whose actual value is \<open>0\<close>
  and whose prediction is not \<open>0\<close> stays in the average: its term is \<open>0\<close> (the quotient is
  \<open>+Infinity\<close>) and it counts in the divisor.
\<close>

theorem accuracyPercent_average:
  assumes "length acts = length preds" and "preds \<noteq> []"
    and "\<forall>i<length preds. acts ! i = 0 \<longrightarrow> preds ! i \<noteq> 0"
  shows "accuracyPercent (map Val preds) (map Val acts)
           = Val ((\<Sum>i<length preds. if acts ! i = 0 then 0
                                       else max 0 (1 - \<bar>preds ! i - acts ! i\<bar> / (acts ! i)))
                  / real (length preds) * 100)"
proof -
  let ?t = "\<lambda>i. if acts ! i = 0 then (0::real)
                 else max 0 (1 - \<bar>preds ! i - acts ! i\<bar> / (acts ! i))"
  have pe: "percentageErrors (map Val preds) (map Val acts) = map Val (map ?t [0..<length preds])"
    using assms(1,3) by (rule percentageErrors_Val)
  have s: "sum_list (map ?t [0..<length preds]) = (\<Sum>i<length preds. ?t i)"
    by (simp add: interv_sum_list_conv_sum_set_nat atLeast0LessThan)
  have n: "real (length preds) \<noteq> 0" using assms(2) by simp
  show ?thesis
    unfolding accuracyPercent_def Let_def pe foldl_num_add_Val s
    using n by simp
qed

theorem accuracyPercent_average_witness:
  "length [0, 10 :: real] = length [5, 10 :: real] \<and> [5, 10 :: real] \<noteq> []
   \<and> accuracyPercent (map Val [5, 10]) (map Val [0, 10]) = Val 50"
proof -
  have h: "\<forall>i<length [5, 10 :: real]. [0, 10 :: real] ! i = 0 \<longrightarrow> [5, 10 :: real] ! i \<noteq> 0"
    by (simp add: less_Suc_eq nth_Cons')
  have "accuracyPercent (map Val [5, 10]) (map Val [0, 10]) = Val 50"
    using accuracyPercent_average [of "[0, 10]" "[5, 10]", OF _ _ h]
    by (simp add: lessThan_Suc numeral_2_eq_2)
  then show ?thesis by simp
qed

text \<open>
  C5 as stated fails: with predictions \<open>[5, 10]\<close> and actual values \<open>[0, 10]\<close> the code
  averages over both points and gives 50, where excluding the point with actual value
  \<open>0\<close> gives 100.
\<close>

theorem accuracyPercent_zero_actual_counterexample:
  "accuracyPercent [Val 5, Val 10] [Val 0, Val 10] = Val 50
   \<and> accuracy_spec [Val 5, Val 10] [Val 0, Val 10] = Val 100
   \<and> accuracyPercent [Val 5, Val 10] [Val 0, Val 10] \<noteq> accuracy_spec [Val 5, Val 10] [Val 0, Val 10]"
  by (simp add: accuracyPercent_def percentageErrors_def map_index_def at_num_def
        accuracy_spec_def num_sub_def Let_def)

section \<open>Properties of the series aggregator\<close>

lemma length_ToNumbers: "length (ToNumbers num xs) = length xs"
  by (simp add: ToNumbers_def)

text \<open>
  C9. The claim asks that a category whose value is not a positive numeric count is
  skipped, which is the test of the sibling aggregator \<^verbatim>\<open>aggregateData\<close>.
  \<^verbatim>\<open>extractTimeSeriesData\<close> has no such test: for a year with the counts \<open>-5\<close> and \<open>3\<close> it gives
  \<open>-2\<close>, where the positive counts sum to \<open>3\<close>; a count that is the string \<open>5\<close> is
  concatenated, so that the value of the year is a string. On the same records the
  sibling skips the negative and the string count and keeps the \<open>3\<close>.
\<close>

theorem extractTimeSeriesData_unchecked_counts:
  "extractTimeSeriesData str
     [\<lparr> Year = Val 2000,
         categories = [(''USA'', JObject [(''emigrants'', JNumber (Val (- 5)))]),
                       (''JAPAN'', JObject [(''emigrants'', JNumber (Val 3))])] \<rparr>]
     = [JNumber (Val (- 2))]
   \<and> aggregateData
     [\<lparr> Year = Val 2000,
         categories = [(''USA'', JObject [(''emigrants'', JNumber (Val (- 5)))]),
                       (''JAPAN'', JObject [(''emigrants'', JNumber (Val 3))])] \<rparr>] None ''USA''
     = None
   \<and> aggregateData
     [\<lparr> Year = Val 2000,
         categories = [(''USA'', JObject [(''emigrants'', JNumber (Val (- 5)))]),
                       (''JAPAN'', JObject [(''emigrants'', JNumber (Val 3))])] \<rparr>] None ''JAPAN''
     = Some (Val 3)
   \<and> extractTimeSeriesData str
     [\<lparr> Year = Val 2000,
         categories = [(''USA'', JObject [(''emigrants'', JString ''5'')]),
                       (''JAPAN'', JObject [(''emigrants'', JNumber (Val 3))])] \<rparr>]
     = [JString (str (Val 0) @ ''5'' @ str (Val 3))]
   \<and> aggregateData
     [\<lparr> Year = Val 2000,
         categories = [(''USA'', JObject [(''emigrants'', JString ''5'')]),
                       (''JAPAN'', JObject [(''emigrants'', JNumber (Val 3))])] \<rparr>] None ''USA''
     = None
   \<and> aggregateData
     [\<lparr> Year = Val 2000,
         categories = [(''USA'', JObject [(''emigrants'', JString ''5'')]),
                       (''JAPAN'', JObject [(''emigrants'', JNumber (Val 3))])] \<rparr>] None ''JAPAN''
     = Some (Val 3)"
  by (simp add: extractTimeSeriesData_def totalEmigrants_def Object_entries_def emigrants_of_def
        js_plus_def aggregateData_def emigrants_or_null_def positive_number_def)

section \<open>Properties of the forecast engine\<close>

lemma slice_from_1: "xs \<noteq> [] \<Longrightarrow> slice_from xs 1 = tl xs"
  by (cases xs) (simp_all add: slice_from_def rel_index_def)

lemma slice_from_last:
  "0 < n \<Longrightarrow> n \<le> length xs \<Longrightarrow> slice_from xs (- int n) = drop (length xs - n) xs"
  by (simp add: slice_from_def rel_index_def nat_diff_distrib')

lemma forecastLoop_rollout:
  assumes tot: "\<forall>w. length w = L \<longrightarrow> predict w \<noteq> None" and L: "0 < L"
  shows "length cur = L \<Longrightarrow>
         \<exists>qs. forecastLoop predict n cur preds = Some (preds @ qs) \<and> length qs = n
              \<and> (\<forall>k<n. predict (drop k (cur @ take k qs)) = Some (qs ! k))"
proof (induction n arbitrary: cur preds)
  case 0
  then show ?case by simp
next
  case (Suc n)
  from Suc.prems L have ne: "cur \<noteq> []" by auto
  from tot Suc.prems obtain p where p: "predict cur = Some p" by auto
  let ?cur' = "slice_from cur 1 @ [p]"
  have cur': "?cur' = tl cur @ [p]" by (simp add: slice_from_1 [OF ne])
  have len': "length ?cur' = L" using Suc.prems L by (simp add: cur')
  from Suc.IH [OF len', of "preds @ [p]"]
  obtain qs where qs: "forecastLoop predict n ?cur' (preds @ [p]) = Some ((preds @ [p]) @ qs)"
      "length qs = n" "\<forall>k<n. predict (drop k (?cur' @ take k qs)) = Some (qs ! k)"
    by blast
  have step: "\<forall>k<Suc n. predict (drop k (cur @ take k (p # qs))) = Some ((p # qs) ! k)"
  proof (intro allI impI)
    fix k assume k: "k < Suc n"
    show "predict (drop k (cur @ take k (p # qs))) = Some ((p # qs) ! k)"
    proof (cases k)
      case 0
      then show ?thesis by (simp add: p)
    next
      case (Suc j)
      with k have j: "j < n" by simp
      have "drop (Suc j) (cur @ take (Suc j) (p # qs)) = drop j (tl cur @ [p] @ take j qs)"
        using ne by (cases cur) simp_all
      with qs(3) j show ?thesis by (simp add: Suc cur')
    qed
  qed
  show ?case
    using qs(1,2) step p
    by (intro exI [of _ "p # qs"]) simp
qed


lemma forecastRows_points:
  assumes tot: "\<forall>w. length w = L \<longrightarrow> predict w \<noteq> None" and L: "0 < L"
    and len: "L \<le> length emigrationData"
    and yr: "Year (last emigrationData) = Val y"
  shows "\<exists>ps. length ps = N
     \<and> forecastRows str num predict L emigrationData N =
         Some (map (\<lambda>k. \<lparr> year = Val (y + real k + 1), actual = None,
                           predicted = Some (Math_round (num_add (num_mul (ps ! k)
                             (num_sub (nmax (normalizeData (ToNumbers num (extractTimeSeriesData str emigrationData))))
                                      (nmin (normalizeData (ToNumbers num (extractTimeSeriesData str emigrationData))))))
                             (nmin (normalizeData (ToNumbers num (extractTimeSeriesData str emigrationData)))))),
                           row_type = ''forecast'' \<rparr>) [0..<N],
               map_index (\<lambda>yearData index.
                          \<lparr> year = Year yearData,
                            actual = Some (Math_round (at_int (ToNumbers num (extractTimeSeriesData str emigrationData))
                                       (int (length (ToNumbers num (extractTimeSeriesData str emigrationData))) - 10 + int index))),
                            predicted = None, row_type = ''historical'' \<rparr>)
                          (slice_from emigrationData (- 10)))
     \<and> (\<forall>k<N. predict (drop k
            (drop (length emigrationData - L)
               (normalized (normalizeData (ToNumbers num (extractTimeSeriesData str emigrationData)))) @ take k ps))
          = Some (ps ! k))"
proof -
  let ?nz = "normalizeData (ToNumbers num (extractTimeSeriesData str emigrationData))"
  let ?seed = "slice_from (normalized ?nz) (- int L)"
  have lenn: "length (normalized ?nz) = length emigrationData"
    by (simp add: length_normalizeData length_ToNumbers length_extractTimeSeriesData)
  have seed: "?seed = drop (length emigrationData - L) (normalized ?nz)"
    using slice_from_last [of L "normalized ?nz"] L len by (simp add: lenn)
  have "length ?seed = L" using len by (simp add: seed lenn)
  from forecastLoop_rollout [OF tot L this, of N "[]"]
  obtain ps where ps: "forecastLoop predict N ?seed [] = Some ps" "length ps = N"
     "\<forall>k<N. predict (drop k (?seed @ take k ps)) = Some (ps ! k)"
    by auto
  from L len have ne: "emigrationData \<noteq> []" by auto
  have lastY: "Year (emigrationData ! (length emigrationData - 1)) = Val y"
    using yr ne by (simp add: last_conv_nth)
  have rows: "map_index (\<lambda>v index.
                 \<lparr> year = Val (y + real index + 1),
                   actual = None, predicted = Some (Math_round v),
                   row_type = ''forecast'' \<rparr>) (denormalizeData ps (nmin ?nz) (nmax ?nz))
     = map (\<lambda>k. \<lparr> year = Val (y + real k + 1), actual = None,
                    predicted = Some (Math_round (num_add (num_mul (ps ! k)
                             (num_sub (nmax ?nz) (nmin ?nz))) (nmin ?nz))),
                    row_type = ''forecast'' \<rparr>) [0..<N]"
    by (rule nth_equalityI)
       (simp_all add: length_map_index nth_map_index denormalizeData_def ps(2))
  have fr: "forecastRows str num predict L emigrationData N =
         Some (map (\<lambda>k. \<lparr> year = Val (y + real k + 1), actual = None,
                           predicted = Some (Math_round (num_add (num_mul (ps ! k)
                             (num_sub (nmax ?nz) (nmin ?nz))) (nmin ?nz))),
                           row_type = ''forecast'' \<rparr>) [0..<N],
               map_index (\<lambda>yearData index.
                          \<lparr> year = Year yearData,
                            actual = Some (Math_round (at_int (ToNumbers num (extractTimeSeriesData str emigrationData))
                                       (int (length (ToNumbers num (extractTimeSeriesData str emigrationData))) - 10 + int index))),
                            predicted = None, row_type = ''historical'' \<rparr>)
                          (slice_from emigrationData (- 10)))"
    using ne by (simp add: forecastRows_def Let_def ps(1) lastY [simplified] rows)
  have roll: "\<forall>k<N. predict (drop k
            (drop (length emigrationData - L) (normalized ?nz) @ take k ps)) = Some (ps ! k)"
    using ps(3) by (simp only: seed)
  show ?thesis
    by (intro exI [of _ ps] conjI) (rule ps(2), rule fr, rule roll)
qed


text \<open>
  C7. For a trained model whose predictor accepts every window of its lookback \<open>L\<close>, with
  \<open>1 \<le> L\<close> and at least \<open>L\<close> yearly records, the last of year \<open>y\<close>, the forecast over \<open>N\<close>
  years consists of exactly \<open>N\<close> points, the \<open>k\<close>-th (from 0) of year \<open>y + k + 1\<close>, in order.
  The \<open>k\<close>-th prediction is the model's value on the window obtained from the last \<open>L\<close>
  normalized historical values by \<open>k\<close> times dropping the oldest element and appending
  the previous prediction: it depends on the first \<open>k\<close> predictions only. Both variants
  of \<^verbatim>\<open>generateForecast\<close> produce these points.
\<close>

theorem generateForecast_points:
  assumes "trainedModel m = Some predict"
    and "\<forall>w. length w = lookback m \<longrightarrow> predict w \<noteq> None"
    and "0 < lookback m" and "lookback m \<le> length emigrationData"
    and "Year (last emigrationData) = Val y"
  shows "\<exists>fr ps.
       generateForecast_auto str num (Some m) emigrationData N = Inr fr
     \<and> length (forecasts fr) = N \<and> length ps = N
     \<and> forecasts fr =
         map (\<lambda>k. \<lparr> year = Val (y + real k + 1), actual = None,
                      predicted = Some (Math_round (num_add (num_mul (ps ! k)
                        (num_sub (nmax (normalizeData (ToNumbers num (extractTimeSeriesData str emigrationData))))
                                 (nmin (normalizeData (ToNumbers num (extractTimeSeriesData str emigrationData))))))
                        (nmin (normalizeData (ToNumbers num (extractTimeSeriesData str emigrationData)))))),
                      row_type = ''forecast'' \<rparr>) [0..<N]
     \<and> (\<forall>k<N. predict (drop k
            (drop (length emigrationData - lookback m)
               (normalized (normalizeData (ToNumbers num (extractTimeSeriesData str emigrationData)))) @ take k ps))
          = Some (ps ! k))
     \<and> (idx < length ms \<and> ms ! idx = m \<and> trained m \<and> normalizationParams m \<noteq> None \<longrightarrow>
          (\<exists>fr'. generateForecast_manual str num ms (Some idx) emigrationData N = Inr fr'
                \<and> forecasts fr' = forecasts fr))"
proof -
  from forecastRows_points [OF assms(2-5), of N]
  obtain ps where ps: "length ps = N"
     "forecastRows str num predict (lookback m) emigrationData N =
         Some (map (\<lambda>k. \<lparr> year = Val (y + real k + 1), actual = None,
                           predicted = Some (Math_round (num_add (num_mul (ps ! k)
                             (num_sub (nmax (normalizeData (ToNumbers num (extractTimeSeriesData str emigrationData))))
                                      (nmin (normalizeData (ToNumbers num (extractTimeSeriesData str emigrationData))))))
                             (nmin (normalizeData (ToNumbers num (extractTimeSeriesData str emigrationData)))))),
                           row_type = ''forecast'' \<rparr>) [0..<N],
               map_index (\<lambda>yearData index.
                          \<lparr> year = Year yearData,
                            actual = Some (Math_round (at_int (ToNumbers num (extractTimeSeriesData str emigrationData))
                                       (int (length (ToNumbers num (extractTimeSeriesData str emigrationData))) - 10 + int index))),
                            predicted = None, row_type = ''historical'' \<rparr>)
                          (slice_from emigrationData (- 10)))"
     "\<forall>k<N. predict (drop k
            (drop (length emigrationData - lookback m)
               (normalized (normalizeData (ToNumbers num (extractTimeSeriesData str emigrationData)))) @ take k ps))
          = Some (ps ! k)"
    by blast
  from assms(3,4) have ne: "emigrationData \<noteq> []" by auto
  then have "0 < length emigrationData" by simp
  then have "nat (max (int (length emigrationData) - 10) 0) < length emigrationData"
    by arith
  then have hist: "slice_from emigrationData (- 10) \<noteq> []"
    by (simp add: slice_from_def rel_index_def)
  let ?fd = "map (\<lambda>k. \<lparr> year = Val (y + real k + 1), actual = None,
                           predicted = Some (Math_round (num_add (num_mul (ps ! k)
                             (num_sub (nmax (normalizeData (ToNumbers num (extractTimeSeriesData str emigrationData))))
                                      (nmin (normalizeData (ToNumbers num (extractTimeSeriesData str emigrationData))))))
                             (nmin (normalizeData (ToNumbers num (extractTimeSeriesData str emigrationData)))))),
                           row_type = ''forecast'' \<rparr>) [0..<N]"
  obtain fr where fr: "generateForecast_auto str num (Some m) emigrationData N = Inr fr"
      "forecasts fr = ?fd"
    using hist
    by (simp add: generateForecast_auto_def assms(1) ps(2) Let_def map_index_def)
  have man: "idx < length ms \<and> ms ! idx = m \<and> trained m \<and> normalizationParams m \<noteq> None \<longrightarrow>
          (\<exists>fr'. generateForecast_manual str num ms (Some idx) emigrationData N = Inr fr'
                \<and> forecasts fr' = forecasts fr)"
    by (auto simp add: generateForecast_manual_def assms(1) ps(2) fr(2) Let_def)
  show ?thesis
    using fr ps(1,3) man
    by (intro exI [of _ fr] exI [of _ ps]) simp
qed



text \<open>The stored normalization parameters of a model have no influence on its forecast.\<close>

lemma generateForecast_manual_ignores_params:
  "normalizationParams m \<noteq> None \<Longrightarrow>
     generateForecast_manual str num (ms [idx := m \<lparr> normalizationParams := Some p \<rparr>]) (Some idx)
         emigrationData N
       = generateForecast_manual str num (ms [idx := m]) (Some idx) emigrationData N"
  by (auto simp add: generateForecast_manual_def Let_def)

theorem generateForecast_points_witness:
  "\<exists>fr. generateForecast_auto (\<lambda>n. ''#'') (\<lambda>s. NaN)
          (Some \<lparr> modelName = ''L3_N32_D0.1'', lookback = 3, lstmNeurons = 32,
                  dropout = Val (1 / 10), mae = Some (Val 1), accuracy = Some (Val 90),
                  trained = True,
                  trainedModel = Some (\<lambda>w. if length w = 3 then Some (Val (1 / 2)) else None),
                  testResults = None, normalizationParams = Some (Val 0, Val 20) \<rparr>)
          [\<lparr> Year = Val 2018, categories = [(''USA'', JObject [(''emigrants'', JNumber (Val 0))])] \<rparr>,
           \<lparr> Year = Val 2019, categories = [(''USA'', JObject [(''emigrants'', JNumber (Val 20))])] \<rparr>,
           \<lparr> Year = Val 2020, categories = [(''USA'', JObject [(''emigrants'', JNumber (Val 10))])] \<rparr>]
          5 = Inr fr
       \<and> length (forecasts fr) = 5
       \<and> map year (forecasts fr) = [Val 2021, Val 2022, Val 2023, Val 2024, Val 2025]"
  (is "\<exists>fr. generateForecast_auto ?str ?num (Some ?m) ?ed 5 = Inr fr \<and> _ \<and> _")
proof -
  let ?predict = "\<lambda>w :: number list. if length w = 3 then Some (Val (1 / 2)) else None"
  have 1: "trainedModel ?m = Some ?predict" by simp
  have 2: "\<forall>w. length w = lookback ?m \<longrightarrow> ?predict w \<noteq> None" by simp
  have 3: "0 < lookback ?m" by simp
  have 4: "lookback ?m \<le> length ?ed" by simp
  have 5: "Year (last ?ed) = Val 2020" by simp
  have u: "[0..<5] = [0, 1, 2, 3, 4 :: nat]" by code_simp
  show ?thesis
    using generateForecast_points [OF 1 2 3 4 5, where N = 5 and idx = 0 and ms = "[]"
            and str = ?str and num = ?num]
    apply (elim exE conjE)
    subgoal for fr ps
      apply (rule exI [of _ fr])
      apply (simp add: u)
      done
    done
qed

text \<open>
  C8. The claim asks that the forecast is denormalized with the parameters stored in the
  model at training time. Both variants of \<^verbatim>\<open>generateForecast\<close> normalize the current
  series again and denormalize with that \<open>min\<close> and \<open>max\<close>; the stored parameters are only
  tested for presence. A model that stored \<open>(0, 10)\<close>, forecasting on a series that now
  spans \<open>0..20\<close>, turns the prediction \<open>0.5\<close> into \<open>10\<close>, where the stored scale gives \<open>5\<close>.
\<close>

theorem generateForecast_recomputes_scale:
  "map_sum id forecasts
     (generateForecast_manual (\<lambda>n. ''#'') (\<lambda>s. NaN)
        [\<lparr> modelName = ''Model #1'', lookback = 1, lstmNeurons = 50,
            dropout = Val (1 / 5), mae = Some (Val 0), accuracy = Some (Val 100),
            trained = True,
            trainedModel = Some (\<lambda>w. if length w = 1 then Some (Val (1 / 2)) else None),
            testResults = None, normalizationParams = Some (Val 0, Val 10) \<rparr>]
        (Some 0)
        [\<lparr> Year = Val 2018, categories = [(''USA'', JObject [(''emigrants'', JNumber (Val 0))])] \<rparr>,
         \<lparr> Year = Val 2019, categories = [(''USA'', JObject [(''emigrants'', JNumber (Val 20))])] \<rparr>,
         \<lparr> Year = Val 2020, categories = [(''USA'', JObject [(''emigrants'', JNumber (Val 10))])] \<rparr>]
        1)
     = Inr [\<lparr> year = Val 2021, actual = None, predicted = Some (Val 10), row_type = ''forecast'' \<rparr>]
   \<and> map Math_round (denormalizeData [Val (1 / 2)] (Val 0) (Val 10)) = [Val 5]"
  (is "map_sum id forecasts (generateForecast_manual ?str ?num [?m] (Some 0) ?ed 1) = _ \<and> _")
proof -
  have series: "ToNumbers ?num (extractTimeSeriesData ?str ?ed) = [Val 0, Val 20, Val 10]"
    by (simp add: ToNumbers_def extractTimeSeriesData_def totalEmigrants_def Object_entries_def
          emigrants_of_def js_plus_def)
  have scale: "normalizeData [Val 0, Val 20, Val 10]
                 = \<lparr> normalized = [Val 0, Val 1, Val (1 / 2)], nmin = Val 0, nmax = Val 20 \<rparr>"
    by (simp add: normalizeData_def Let_def Math_min_def Math_max_def num_sub_def)
  have rows: "map_option fst
                (forecastRows ?str ?num (\<lambda>w. if length w = 1 then Some (Val (1 / 2)) else None) 1 ?ed 1)
                = Some [\<lparr> year = Val 2021, actual = None, predicted = Some (Val 10),
                          row_type = ''forecast'' \<rparr>]"
    by (simp add: forecastRows_def Let_def series scale slice_from_def rel_index_def
          denormalizeData_def map_index_def num_sub_def)
  then have "map_sum id forecasts (generateForecast_manual ?str ?num [?m] (Some 0) ?ed 1)
     = Inr [\<lparr> year = Val 2021, actual = None, predicted = Some (Val 10), row_type = ''forecast'' \<rparr>]"
    by (auto simp add: generateForecast_manual_def Let_def split: option.splits)
  moreover have "map Math_round (denormalizeData [Val (1 / 2)] (Val 0) (Val 10)) = [Val 5]"
    by (simp add: denormalizeData_def num_sub_def)
  ultimately show ?thesis by blast
qed

section \<open>Properties of the export\<close>

lemma forecastRows_shape:
  assumes "forecastRows str num predict L emigrationData N = Some (forecastData, recentHistorical)"
  shows "(\<forall>r \<in> set forecastData. actual r = None)
       \<and> (\<forall>r \<in> set recentHistorical. predicted r = None \<and> row_type r = ''historical'')"
  using assms
  by (auto simp add: forecastRows_def Let_def map_index_def split: option.splits if_splits)

lemma value_cell_zero:
  "actual r = Some (Val 0) \<Longrightarrow>
     value_cell r = (case predicted r of Some p \<Rightarrow> CNumber p | None \<Rightarrow> CUndefined)"
  by (simp add: value_cell_def)

text \<open>
  C10. In the CSV export the value cell of a row is \<open>row.actual || row.predicted\<close>. For
  every row whose actual value is \<open>0\<close> the cell holds the predicted value, or nothing when
  there is none, and the exported line is the year, that cell and the type. The exported
  text is the header line followed by one such line per row of the combined table (the
  grid-search variant leaves the \<open>connection\<close> row out). Consequently, in the table that
  either variant of \<^verbatim>\<open>generateForecast\<close> builds, an exported row whose actual value is \<open>0\<close>
  has an empty value cell: a historical point of value \<open>0\<close> is never exported as \<open>0\<close>.
\<close>

theorem exportForecast_zero_actual:
  "(actual r = Some (Val 0) \<longrightarrow>
       value_cell r = (case predicted r of Some p \<Rightarrow> CNumber p | None \<Rightarrow> CUndefined)
     \<and> map (cell_text str) (row_cells r)
         = [str (year r), (case predicted r of Some p \<Rightarrow> str p | None \<Rightarrow> []), row_type r])
   \<and> exportForecast_manual str (Some fr)
       = Some (join [CHR 0x0A] (map (join '','')
           ([''Year'', ''Emigrants'', ''Type'']
            # map (\<lambda>r. [str (year r), cell_text str (value_cell r), row_type r]) (combined fr))))
   \<and> exportForecast_auto str (Some fr)
       = Some (join [CHR 0x0A] (map (join '','')
           ([''Year'', ''Emigrants'', ''Type'']
            # map (\<lambda>r. [str (year r), cell_text str (value_cell r), row_type r])
                (filter (\<lambda>r. row_type r \<noteq> ''connection'') (combined fr)))))
   \<and> (generateForecast_manual str num ms sel emigrationData N = Inr fm
        \<and> rm \<in> set (combined fm) \<and> actual rm = Some (Val 0)
      \<longrightarrow> value_cell rm = CUndefined \<and> cell_text str (value_cell rm) = [])
   \<and> (generateForecast_auto str num best emigrationData N = Inr fa
        \<and> ra \<in> set (filter (\<lambda>r. row_type r \<noteq> ''connection'') (combined fa))
        \<and> actual ra = Some (Val 0)
      \<longrightarrow> value_cell ra = CUndefined \<and> cell_text str (value_cell ra) = [])"
proof (intro conjI impI)
  assume "actual r = Some (Val 0)"
  then show "value_cell r = (case predicted r of Some p \<Rightarrow> CNumber p | None \<Rightarrow> CUndefined)"
    by (rule value_cell_zero)
  then show "map (cell_text str) (row_cells r)
         = [str (year r), (case predicted r of Some p \<Rightarrow> str p | None \<Rightarrow> []), row_type r]"
    by (simp add: row_cells_def cell_text_def split: option.splits)
next
  show "exportForecast_manual str (Some fr)
       = Some (join [CHR 0x0A] (map (join '','')
           ([''Year'', ''Emigrants'', ''Type'']
            # map (\<lambda>r. [str (year r), cell_text str (value_cell r), row_type r]) (combined fr))))"
    by (simp add: exportForecast_manual_def csv_of_def row_cells_def cell_text_def)
  show "exportForecast_auto str (Some fr)
       = Some (join [CHR 0x0A] (map (join '','')
           ([''Year'', ''Emigrants'', ''Type'']
            # map (\<lambda>r. [str (year r), cell_text str (value_cell r), row_type r])
                (filter (\<lambda>r. row_type r \<noteq> ''connection'') (combined fr)))))"
    by (simp add: exportForecast_auto_def csv_of_def row_cells_def cell_text_def)
next
  assume a: "generateForecast_manual str num ms sel emigrationData N = Inr fm
        \<and> rm \<in> set (combined fm) \<and> actual rm = Some (Val 0)"
  then obtain predict L fd rh where
    rows: "forecastRows str num predict L emigrationData N = Some (fd, rh)" and c: "combined fm = rh @ fd"
    by (auto simp add: generateForecast_manual_def Let_def split: option.splits if_splits)
  from forecastRows_shape [OF rows] a c have "predicted rm = None" by auto
  with a have v: "value_cell rm = CUndefined" by (simp add: value_cell_zero)
  then show "value_cell rm = CUndefined" "cell_text str (value_cell rm) = []"
    by (simp_all add: cell_text_def)
next
  assume a: "generateForecast_auto str num best emigrationData N = Inr fa
        \<and> ra \<in> set (filter (\<lambda>r. row_type r \<noteq> ''connection'') (combined fa))
        \<and> actual ra = Some (Val 0)"
  then obtain predict L fd rh c where
    rows: "forecastRows str num predict L emigrationData N = Some (fd, rh)"
    and c: "combined fa = map (\<lambda>h. h \<lparr> predicted := None \<rparr>) (slice rh 0 (- 1)) @ [c]
                 @ map (\<lambda>f. f \<lparr> actual := None \<rparr>) fd"
    and conn: "row_type c = ''connection''"
    by (auto simp add: generateForecast_auto_def Let_def split: option.splits if_splits)
  from a c conn have "predicted ra = None" by auto
  with a have v: "value_cell ra = CUndefined" by (simp add: value_cell_zero)
  then show "value_cell ra = CUndefined" "cell_text str (value_cell ra) = []"
    by (simp_all add: cell_text_def)
qed


theorem exportForecast_zero_actual_witness:
  "\<exists>fm fa.
      generateForecast_manual (\<lambda>n. ''#'') (\<lambda>s. NaN)
        [\<lparr> modelName = ''Model #1'', lookback = 1, lstmNeurons = 50,
            dropout = Val (1 / 5), mae = Some (Val 0), accuracy = Some (Val 100),
            trained = True,
            trainedModel = Some (\<lambda>w. if length w = 1 then Some (Val (1 / 2)) else None),
            testResults = None, normalizationParams = Some (Val 0, Val 20) \<rparr>]
        (Some 0)
        (map (\<lambda>(y, v). \<lparr> Year = Val y, categories = [(''USA'', JObject [(''emigrants'', JNumber (Val v))])] \<rparr>)
           [(2011, 0), (2012, 10), (2013, 20), (2014, 10), (2015, 10),
            (2016, 10), (2017, 10), (2018, 10), (2019, 10), (2020, 10)])
        1 = Inr fm
    \<and> \<lparr> year = Val 2011, actual = Some (Val 0), predicted = None, row_type = ''historical'' \<rparr>
        \<in> set (combined fm)
    \<and> generateForecast_auto (\<lambda>n. ''#'') (\<lambda>s. NaN)
        (Some \<lparr> modelName = ''Model #1'', lookback = 1, lstmNeurons = 50,
            dropout = Val (1 / 5), mae = Some (Val 0), accuracy = Some (Val 100),
            trained = True,
            trainedModel = Some (\<lambda>w. if length w = 1 then Some (Val (1 / 2)) else None),
            testResults = None, normalizationParams = Some (Val 0, Val 20) \<rparr>)
        (map (\<lambda>(y, v). \<lparr> Year = Val y, categories = [(''USA'', JObject [(''emigrants'', JNumber (Val v))])] \<rparr>)
           [(2011, 0), (2012, 10), (2013, 20), (2014, 10), (2015, 10),
            (2016, 10), (2017, 10), (2018, 10), (2019, 10), (2020, 10)])
        1 = Inr fa
    \<and> \<lparr> year = Val 2011, actual = Some (Val 0), predicted = None, row_type = ''historical'' \<rparr>
        \<in> set (filter (\<lambda>r. row_type r \<noteq> ''connection'') (combined fa))
    \<and> value_cell \<lparr> year = Val 2011, actual = Some (Val 0), predicted = None,
                    row_type = ''historical'' \<rparr> = CUndefined
    \<and> map (cell_text (\<lambda>n. ''#''))
          (row_cells \<lparr> year = Val 2011, actual = Some (Val 0), predicted = None,
                       row_type = ''historical'' \<rparr>) = [''#'', [], ''historical'']"
  (is "\<exists>fm fa. generateForecast_manual ?str ?num [?m] (Some 0) ?ed 1 = Inr fm \<and> ?r \<in> set (combined fm)
        \<and> generateForecast_auto ?str ?num (Some ?m) ?ed 1 = Inr fa \<and> _ \<and> _ \<and> _")
proof -
  let ?predict = "\<lambda>w :: number list. if length w = 1 then Some (Val (1 / 2)) else None"
  let ?h = "\<lambda>y v. \<lparr> year = Val y, actual = Some (Val v), predicted = None, row_type = ''historical'' \<rparr>"
  let ?rh = "[?h 2011 0, ?h 2012 10, ?h 2013 20, ?h 2014 10, ?h 2015 10,
              ?h 2016 10, ?h 2017 10, ?h 2018 10, ?h 2019 10, ?h 2020 10]"
  let ?fd = "[\<lparr> year = Val 2021, actual = None, predicted = Some (Val 10), row_type = ''forecast'' \<rparr>]"
  have series: "ToNumbers ?num (extractTimeSeriesData ?str ?ed)
                  = map Val [0, 10, 20, 10, 10, 10, 10, 10, 10, 10]"
    by (simp add: ToNumbers_def extractTimeSeriesData_def totalEmigrants_def Object_entries_def
          emigrants_of_def js_plus_def)
  have scale: "normalizeData (map Val [0, 10, 20, 10, 10, 10, 10, 10, 10, 10])
                 = \<lparr> normalized = map Val [0, 1 / 2, 1, 1 / 2, 1 / 2, 1 / 2, 1 / 2, 1 / 2, 1 / 2, 1 / 2],
                     nmin = Val 0, nmax = Val 20 \<rparr>"
    by (simp add: normalizeData_def Let_def Math_min_def Math_max_def num_sub_def)
  have rows: "forecastRows ?str ?num ?predict 1 ?ed 1 = Some (?fd, ?rh)"
    unfolding forecastRows_def Let_def series scale
    by (simp add: slice_from_def rel_index_def denormalizeData_def map_index_def num_sub_def
          at_int_def)
  have man: "generateForecast_manual ?str ?num [?m] (Some 0) ?ed 1
               = Inr \<lparr> forecasts = ?fd, historical = ?rh, combined = ?rh @ ?fd \<rparr>"
    unfolding generateForecast_manual_def Let_def using rows by simp
  have auto: "generateForecast_auto ?str ?num (Some ?m) ?ed 1
               = Inr \<lparr> forecasts = ?fd, historical = ?rh,
                       combined = [?h 2011 0, ?h 2012 10, ?h 2013 20, ?h 2014 10, ?h 2015 10,
                                   ?h 2016 10, ?h 2017 10, ?h 2018 10, ?h 2019 10]
                         @ [\<lparr> year = Val 2020, actual = Some (Val 10), predicted = Some (Val 10),
                               row_type = ''connection'' \<rparr>] @ ?fd \<rparr>"
    unfolding generateForecast_auto_def Let_def using rows
    by (simp add: slice_def rel_index_def)
  have r1: "?r \<in> set (combined \<lparr> forecasts = ?fd, historical = ?rh, combined = ?rh @ ?fd \<rparr>)"
    by simp
  note t = exportForecast_zero_actual [where r = ?r and str = "\<lambda>n. ''#''" and num = ?num and rm = ?r and ra = ?r
      and ms = "[?m]" and sel = "Some 0" and best = "Some ?m" and emigrationData = ?ed and N = 1]
  have cell: "value_cell ?r = CUndefined"
    using t [where fm = "\<lparr> forecasts = ?fd, historical = ?rh, combined = ?rh @ ?fd \<rparr>"] man r1
    by simp
  have cells: "map (cell_text (\<lambda>n. ''#'')) (row_cells ?r) = [''#'', [], ''historical'']"
    using t by simp
  show ?thesis
    apply (rule exI [of _ "\<lparr> forecasts = ?fd, historical = ?rh, combined = ?rh @ ?fd \<rparr>"])
    apply (rule exI)
    apply (intro conjI)
         apply (rule man)
        apply (rule r1)
       apply (rule auto)
      apply simp
     apply (rule cell)
    apply (rule cells)
    done
qed

section \<open>Properties of the tuning controller\<close>

lemma num_less_irrefl: "\<not> num_less a a"
  by (cases a) simp_all

lemma num_less_asym: "num_less a b \<Longrightarrow> \<not> num_less b a"
  by (cases a; cases b) simp_all

lemma num_less_trans: "num_less a b \<Longrightarrow> num_less b c \<Longrightarrow> num_less a c"
  by (cases a; cases b; cases c) simp_all

lemma num_not_less_trans:
  "b \<noteq> NaN \<Longrightarrow> \<not> num_less a b \<Longrightarrow> \<not> num_less b c \<Longrightarrow> \<not> num_less a c"
  by (cases a; cases b; cases c) simp_all

lemma orZero_not_NaN: "orZero a \<noteq> NaN"
  by (cases a) (auto simp: orZero_def elim: truthy.elims)

lemma num_sub_positive:
  "a \<noteq> NaN \<Longrightarrow> b \<noteq> NaN \<Longrightarrow> num_less (Val 0) (num_sub b a) = num_less a b"
  by (cases a; cases b) (simp_all add: num_sub_def)

lemma byAccuracyDesc_positive:
  "num_less (Val 0) (byAccuracyDesc x y) = num_less (orZero (accuracy x)) (orZero (accuracy y))"
  by (simp add: byAccuracyDesc_def num_sub_positive orZero_not_NaN)

lemma mset_js_insert: "mset (js_insert cmp x ys) = add_mset x (mset ys)"
  by (induction ys) simp_all

lemma mset_js_sort: "mset (js_sort cmp xs) = mset xs"
  by (induction xs) (simp_all add: js_sort_def mset_js_insert)

lemma set_js_insert: "set (js_insert cmp x ys) = insert x (set ys)"
  by (induction ys) auto

lemma sorted_js_insert:
  "sorted_wrt (\<lambda>a b. \<not> num_less (orZero (accuracy a)) (orZero (accuracy b))) ys \<Longrightarrow>
   sorted_wrt (\<lambda>a b. \<not> num_less (orZero (accuracy a)) (orZero (accuracy b)))
     (js_insert byAccuracyDesc x ys)"
proof (induction ys)
  case Nil
  then show ?case by simp
next
  case (Cons y ys)
  show ?case
  proof (cases "num_less (orZero (accuracy x)) (orZero (accuracy y))")
    case True
    with Cons show ?thesis
      by (auto simp add: byAccuracyDesc_positive set_js_insert dest: num_less_asym)
  next
    case False
    have "\<forall>z \<in> set ys. \<not> num_less (orZero (accuracy x)) (orZero (accuracy z))"
    proof
      fix z assume "z \<in> set ys"
      with Cons.prems have "\<not> num_less (orZero (accuracy y)) (orZero (accuracy z))" by simp
      with False show "\<not> num_less (orZero (accuracy x)) (orZero (accuracy z))"
        using num_not_less_trans [OF orZero_not_NaN] by blast
    qed
    with False Cons.prems show ?thesis
      by (simp add: byAccuracyDesc_positive)
  qed
qed

lemma sorted_js_sort:
  "sorted_wrt (\<lambda>a b. \<not> num_less (orZero (accuracy a)) (orZero (accuracy b)))
     (js_sort byAccuracyDesc xs)"
proof (induction xs)
  case Nil
  then show ?case by (simp add: js_sort_def)
next
  case (Cons x xs)
  then show ?case
    using sorted_js_insert [of "js_sort byAccuracyDesc xs" x] by (simp add: js_sort_def)
qed

lemma filter_js_insert:
  assumes "sorted_wrt (\<lambda>a b. \<not> num_less (orZero (accuracy a)) (orZero (accuracy b))) ys"
  shows "filter (\<lambda>m. orZero (accuracy m) = k) (js_insert byAccuracyDesc x ys)
         = filter (\<lambda>m. orZero (accuracy m) = k) (x # ys)"
  using assms
proof (induction ys)
  case Nil
  then show ?case by simp
next
  case (Cons y ys)
  show ?case
  proof (cases "num_less (orZero (accuracy x)) (orZero (accuracy y))")
    case True
    then have ne: "orZero (accuracy x) \<noteq> orZero (accuracy y)"
      using num_less_irrefl by auto
    from Cons have "filter (\<lambda>m. orZero (accuracy m) = k) (js_insert byAccuracyDesc x ys)
         = filter (\<lambda>m. orZero (accuracy m) = k) (x # ys)" by simp
    with True ne show ?thesis
      by (auto simp add: byAccuracyDesc_positive)
  next
    case False
    then show ?thesis by (simp add: byAccuracyDesc_positive)
  qed
qed

lemma filter_js_sort:
  "filter (\<lambda>m. orZero (accuracy m) = k) (js_sort byAccuracyDesc xs)
     = filter (\<lambda>m. orZero (accuracy m) = k) xs"
proof (induction xs)
  case Nil
  then show ?case by (simp add: js_sort_def)
next
  case (Cons x xs)
  have "filter (\<lambda>m. orZero (accuracy m) = k) (js_sort byAccuracyDesc (x # xs))
        = filter (\<lambda>m. orZero (accuracy m) = k) (x # js_sort byAccuracyDesc xs)"
    using filter_js_insert [OF sorted_js_sort, of k x xs] by (simp add: js_sort_def)
  with Cons show ?case by simp
qed


lemma combinations_product:
  "length (combinations hp)
     = length (hp_lookback hp) * length (hp_lstmNeurons hp) * length (hp_dropout hp)"
  by (simp add: combinations_def length_concat comp_def sum_list_triv)

lemma combinations_HYPERPARAMETERS:
  "combinations HYPERPARAMETERS =
     [\<lparr> c_lookback = 3, c_neurons = 32, c_dropout = Val (1 / 10) \<rparr>,
      \<lparr> c_lookback = 3, c_neurons = 50, c_dropout = Val (1 / 10) \<rparr>,
      \<lparr> c_lookback = 3, c_neurons = 64, c_dropout = Val (1 / 10) \<rparr>,
      \<lparr> c_lookback = 3, c_neurons = 100, c_dropout = Val (1 / 10) \<rparr>]"
  by (simp add: combinations_def HYPERPARAMETERS_def)

lemma tuneStep_allModels:
  "allModels (tuneStep str num fit emigrationData tot st (i, c))
     = allModels st @
       (case trainSingleModel str num fit emigrationData (c_lookback c) (c_neurons c) (c_dropout c)
               (configName str c) of
          Inr m \<Rightarrow> [m] | Inl e \<Rightarrow> [])"
  by (simp add: tuneStep_def Let_def split: sum.splits)

lemma tuneStep_progress:
  "map (\<lambda>p. (current p, total p, currentConfig p))
       (progress (tuneStep str num fit emigrationData tot st (i, c)))
     = map (\<lambda>p. (current p, total p, currentConfig p)) (progress st)
       @ [(i + 1, tot, configDescription str c)]"
  by (simp add: tuneStep_def Let_def split: sum.splits)

lemma foldl_tuneStep_allModels:
  "allModels (foldl (tuneStep str num fit emigrationData tot) st ics)
     = allModels st @
       concat (map (\<lambda>(i, c).
          case trainSingleModel str num fit emigrationData (c_lookback c) (c_neurons c) (c_dropout c)
                 (configName str c) of
            Inr m \<Rightarrow> [m] | Inl e \<Rightarrow> []) ics)"
proof (induction ics arbitrary: st)
  case Nil
  then show ?case by simp
next
  case (Cons ic ics)
  obtain i c where ic: "ic = (i, c)" by (cases ic)
  show ?case
    by (simp add: ic Cons.IH tuneStep_allModels)
qed

lemma foldl_tuneStep_progress:
  "map (\<lambda>p. (current p, total p, currentConfig p))
       (progress (foldl (tuneStep str num fit emigrationData tot) st ics))
     = map (\<lambda>p. (current p, total p, currentConfig p)) (progress st)
       @ map (\<lambda>(i, c). (i + 1, tot, configDescription str c)) ics"
proof (induction ics arbitrary: st)
  case Nil
  then show ?case by simp
next
  case (Cons ic ics)
  obtain i c where ic: "ic = (i, c)" by (cases ic)
  show ?case
    by (simp add: ic Cons.IH tuneStep_progress)
qed

lemma concat_map_zip_snd:
  "length is = length cs \<Longrightarrow> concat (map (\<lambda>(i, c). f c) (zip is cs)) = concat (map f cs)"
  by (induction "is" cs rule: list_induct2) simp_all


text \<open>
  C6 (amended). The grid \<open>{lookback: [3], lstmNeurons: [32, 50, 64, 100], dropout: [0.1]}\<close>
  gives exactly 4 combinations, the Cartesian product of the three lists (whose size is
  the product of the lengths for any grid). Once the data is loaded, the search attempts
  them one after the other in this order (the progress events are numbered 1 to 4 of 4)
  and returns the successful candidates sorted by accuracy descending, where a missing,
  zero or NaN accuracy counts as \<open>0\<close>. Candidates of equal accuracy keep the order in which
  they were trained: the mean absolute error plays no part. The best model is the first
  entry, and no successful candidate has a higher accuracy.
\<close>

theorem autoTuneModels_sorted:
  assumes "dataLoaded" and "emigrationData \<noteq> []"
  shows "combinations HYPERPARAMETERS =
           [\<lparr> c_lookback = 3, c_neurons = 32, c_dropout = Val (1 / 10) \<rparr>,
            \<lparr> c_lookback = 3, c_neurons = 50, c_dropout = Val (1 / 10) \<rparr>,
            \<lparr> c_lookback = 3, c_neurons = 64, c_dropout = Val (1 / 10) \<rparr>,
            \<lparr> c_lookback = 3, c_neurons = 100, c_dropout = Val (1 / 10) \<rparr>]
       \<and> length (combinations hp)
           = length (hp_lookback hp) * length (hp_lstmNeurons hp) * length (hp_dropout hp)
       \<and> (\<exists>res successes.
             autoTuneModels str num fit dataLoaded emigrationData = Some res
           \<and> successes =
                concat (map (\<lambda>c.
                   case trainSingleModel str num fit emigrationData (c_lookback c) (c_neurons c)
                          (c_dropout c) (configName str c) of
                     Inr m \<Rightarrow> [m] | Inl e \<Rightarrow> []) (combinations HYPERPARAMETERS))
           \<and> map (\<lambda>p. (current p, total p, currentConfig p)) (tuningEvents res)
               = map (\<lambda>(i, c). (i + 1, 4, configDescription str c))
                   (zip [0, 1, 2, 3] (combinations HYPERPARAMETERS))
           \<and> mset (models res) = mset successes
           \<and> sorted_wrt (\<lambda>a b. \<not> num_less (orZero (accuracy a)) (orZero (accuracy b)))
                (models res)
           \<and> (\<forall>k. filter (\<lambda>m. orZero (accuracy m) = k) (models res)
                    = filter (\<lambda>m. orZero (accuracy m) = k) successes)
           \<and> bestModel res = (case models res of [] \<Rightarrow> None | m # ms \<Rightarrow> Some m)
           \<and> (\<forall>b m. bestModel res = Some b \<and> m \<in> set successes \<longrightarrow>
                  \<not> num_less (orZero (accuracy b)) (orZero (accuracy m))))"
proof (intro conjI)
  show "combinations HYPERPARAMETERS =
           [\<lparr> c_lookback = 3, c_neurons = 32, c_dropout = Val (1 / 10) \<rparr>,
            \<lparr> c_lookback = 3, c_neurons = 50, c_dropout = Val (1 / 10) \<rparr>,
            \<lparr> c_lookback = 3, c_neurons = 64, c_dropout = Val (1 / 10) \<rparr>,
            \<lparr> c_lookback = 3, c_neurons = 100, c_dropout = Val (1 / 10) \<rparr>]"
    by (rule combinations_HYPERPARAMETERS)
  show "length (combinations hp)
           = length (hp_lookback hp) * length (hp_lstmNeurons hp) * length (hp_dropout hp)"
    by (rule combinations_product)
next
  let ?combos = "combinations HYPERPARAMETERS"
  let ?train = "\<lambda>c. case trainSingleModel str num fit emigrationData (c_lookback c) (c_neurons c)
                          (c_dropout c) (configName str c) of
                     Inr m \<Rightarrow> [m] | Inl e \<Rightarrow> []"
  let ?succ = "concat (map ?train ?combos)"
  let ?st = "foldl (tuneStep str num fit emigrationData (length ?combos))
               \<lparr> allModels = [], bestAccuracy = Val 0, bestConfig = [], progress = [] \<rparr>
               (zip [0..<length ?combos] ?combos)"
  let ?sorted = "js_sort byAccuracyDesc (allModels ?st)"
  let ?res = "\<lparr> models = ?sorted,
                bestModel = (if 0 < length ?sorted then Some (?sorted ! 0) else None),
                tuningEvents = progress ?st \<rparr>"
  let ?ge = "\<lambda>a b. \<not> num_less (orZero (accuracy a)) (orZero (accuracy b))"
  have len: "length ?combos = 4" by (simp add: combinations_HYPERPARAMETERS)
  have upt: "[0..<4] = [0, 1, 2, 3 :: nat]" by code_simp
  have res: "autoTuneModels str num fit dataLoaded emigrationData = Some ?res"
    using assms by (simp add: autoTuneModels_def Let_def)
  have am: "allModels ?st = ?succ"
    by (simp add: foldl_tuneStep_allModels concat_map_zip_snd)
  have ev: "map (\<lambda>p. (current p, total p, currentConfig p)) (progress ?st)
              = map (\<lambda>(i, c). (i + 1, 4, configDescription str c)) (zip [0, 1, 2, 3] ?combos)"
    unfolding foldl_tuneStep_progress len upt by simp
  have ms: "mset ?sorted = mset ?succ"
    by (simp add: mset_js_sort am)
  have so: "sorted_wrt ?ge ?sorted"
    by (rule sorted_js_sort)
  have st: "\<forall>k. filter (\<lambda>m. orZero (accuracy m) = k) ?sorted
                 = filter (\<lambda>m. orZero (accuracy m) = k) ?succ"
    by (simp add: filter_js_sort am)
  have bm: "(if 0 < length ?sorted then Some (?sorted ! 0) else None)
              = (case ?sorted of [] \<Rightarrow> None | m # ms \<Rightarrow> Some m)"
    by (cases ?sorted) simp_all
  have best: "\<forall>b m. (if 0 < length ?sorted then Some (?sorted ! 0) else None) = Some b
                 \<and> m \<in> set ?succ \<longrightarrow> ?ge b m"
  proof (intro allI impI)
    fix b m
    assume a: "(if 0 < length ?sorted then Some (?sorted ! 0) else None) = Some b \<and> m \<in> set ?succ"
    then obtain rest where sb: "?sorted = b # rest"
      by (cases ?sorted) (auto split: if_splits)
    from ms have "set ?sorted = set ?succ" by (rule mset_eq_setD)
    with a have "m \<in> set ?sorted" by simp
    with sb have "m = b \<or> m \<in> set rest" by simp
    moreover from so sb have "\<forall>z \<in> set rest. ?ge b z" by simp
    ultimately show "?ge b m" using num_less_irrefl by blast
  qed
  show "\<exists>res successes.
             autoTuneModels str num fit dataLoaded emigrationData = Some res
           \<and> successes = ?succ
           \<and> map (\<lambda>p. (current p, total p, currentConfig p)) (tuningEvents res)
               = map (\<lambda>(i, c). (i + 1, 4, configDescription str c))
                   (zip [0, 1, 2, 3] (combinations HYPERPARAMETERS))
           \<and> mset (models res) = mset successes
           \<and> sorted_wrt ?ge (models res)
           \<and> (\<forall>k. filter (\<lambda>m. orZero (accuracy m) = k) (models res)
                    = filter (\<lambda>m. orZero (accuracy m) = k) successes)
           \<and> bestModel res = (case models res of [] \<Rightarrow> None | m # ms \<Rightarrow> Some m)
           \<and> (\<forall>b m. bestModel res = Some b \<and> m \<in> set successes \<longrightarrow> ?ge b m)"
    apply (rule exI [of _ ?res])
    apply (rule exI [of _ ?succ])
    apply (intro conjI)
           apply (rule res)
          apply (rule refl)
         apply (simp only: tuning_result.simps ev simp_thms)
        apply (simp only: tuning_result.simps ms simp_thms)
       apply (simp only: tuning_result.simps so simp_thms)
      apply (simp only: tuning_result.simps st simp_thms)
     apply (simp only: tuning_result.simps bm simp_thms)
    apply (simp only: tuning_result.simps)
    apply (rule best)
    done
qed

theorem autoTuneModels_sorted_witness:
  "length (combinations HYPERPARAMETERS) = 4
   \<and> (\<exists>res.
      autoTuneModels (\<lambda>n. ''#'') (\<lambda>s. NaN)
        (\<lambda>lb neurons d tr te.
            Some (\<lambda>w. if length w = lb then Some (Val (if neurons = 32 then 2 else 0)) else None))
        True
        (map (\<lambda>(y, v). \<lparr> Year = Val y, categories = [(''USA'', JObject [(''emigrants'', JNumber (Val v))])] \<rparr>)
           [(2000, 0), (2001, 1), (2002, 2), (2003, 3), (2004, 4), (2005, 5), (2006, 6),
            (2007, 7), (2008, 8), (2009, 9), (2010, 10), (2011, 11), (2012, 12), (2013, 13),
            (2014, 14), (2015, 15), (2016, 16), (2017, 17), (2018, 18), (2019, 19), (2020, 20)])
        = Some res
    \<and> sorted_wrt (\<lambda>a b. \<not> num_less (orZero (accuracy a)) (orZero (accuracy b))) (models res)
    \<and> bestModel res = (case models res of [] \<Rightarrow> None | m # ms \<Rightarrow> Some m)
    \<and> length (tuningEvents res) = 4)"
  (is "_ \<and> (\<exists>res. autoTuneModels ?str ?num ?fit True ?ed = Some res \<and> _ \<and> _ \<and> _)")
proof -
  have ne: "?ed \<noteq> []" by simp
  note t = autoTuneModels_sorted [OF TrueI ne, where str = ?str and num = ?num and fit = ?fit
             and hp = HYPERPARAMETERS]
  have len: "length (combinations HYPERPARAMETERS) = 4"
    using t by simp
  have ex: "\<exists>res. autoTuneModels ?str ?num ?fit True ?ed = Some res
    \<and> sorted_wrt (\<lambda>a b. \<not> num_less (orZero (accuracy a)) (orZero (accuracy b))) (models res)
    \<and> bestModel res = (case models res of [] \<Rightarrow> None | m # ms \<Rightarrow> Some m)
    \<and> length (tuningEvents res) = 4"
    using t
    apply (elim exE conjE)
    subgoal premises p for res successes
    proof -
      have "length (map (\<lambda>p. (current p, total p, currentConfig p)) (tuningEvents res))
            = length (map (\<lambda>(i, c). (i + 1, 4 :: nat, configDescription ?str c))
                   (zip [0, 1, 2, 3 :: nat] (combinations HYPERPARAMETERS)))"
        using p(5) by (rule arg_cong)
      then have "length (tuningEvents res) = 4" by (simp add: len)
      with p(3) p(7) p(9) show ?thesis by blast
    qed
    done
  from len ex show ?thesis by simp
qed

text \<open>
  C6 as stated fails on the tie-break: on a series of 21 years, with a trainer whose
  32-unit model is further off than the others, all four candidates have accuracy \<open>0\<close>;
  the 32-unit model, trained first, stays first although its mean absolute error (20.5)
  is the highest.
\<close>

theorem autoTuneModels_tie_counterexample:
  "\<exists>res.
      autoTuneModels (\<lambda>n. ''#'') (\<lambda>s. NaN)
        (\<lambda>lb neurons d tr te.
            Some (\<lambda>w. if length w = lb then Some (Val (if neurons = 32 then 2 else 0)) else None))
        True
        (map (\<lambda>(y, v). \<lparr> Year = Val y, categories = [(''USA'', JObject [(''emigrants'', JNumber (Val v))])] \<rparr>)
           [(2000, 0), (2001, 1), (2002, 2), (2003, 3), (2004, 4), (2005, 5), (2006, 6),
            (2007, 7), (2008, 8), (2009, 9), (2010, 10), (2011, 11), (2012, 12), (2013, 13),
            (2014, 14), (2015, 15), (2016, 16), (2017, 17), (2018, 18), (2019, 19), (2020, 20)])
        = Some res
    \<and> map (\<lambda>m. (lstmNeurons m, accuracy m, mae m)) (models res)
        = [(32, Some (Val 0), Some (Val (41 / 2))), (50, Some (Val 0), Some (Val (39 / 2))),
           (64, Some (Val 0), Some (Val (39 / 2))), (100, Some (Val 0), Some (Val (39 / 2)))]
    \<and> \<not> spec_ordered (models res)"
  (is "\<exists>res. autoTuneModels ?str ?num ?fit True ?ed = Some res \<and> _ \<and> _")
proof -
  let ?series = "map Val [0, 1, 2, 3, 4, 5, 6, 7, 8, 9, 10, 11, 12, 13, 14, 15, 16, 17, 18, 19, 20]"
  have series: "ToNumbers ?num (extractTimeSeriesData ?str ?ed) = ?series"
    by (simp add: ToNumbers_def extractTimeSeriesData_def totalEmigrants_def Object_entries_def
          emigrants_of_def js_plus_def)
  have ln: "length (extractTimeSeriesData ?str ?ed) = 21"
    by (simp add: extractTimeSeriesData_def)
  have mn: "Math_min ?series = Val 0" by (simp add: Math_min_def)
  have mx: "Math_max ?series = Val 20" by (simp add: Math_max_def)
  have nz: "normalizeData ?series =
      \<lparr> normalized = map Val [0, 1 / 20, 1 / 10, 3 / 20, 1 / 5, 1 / 4, 3 / 10, 7 / 20, 2 / 5, 9 / 20,
                               1 / 2, 11 / 20, 3 / 5, 13 / 20, 7 / 10, 3 / 4, 4 / 5, 17 / 20, 9 / 10,
                               19 / 20, 1],
        nmin = Val 0, nmax = Val 20 \<rparr>"
    using mn mx by (simp add: normalizeData_def Let_def num_sub_def)
  have test: "testSeq (trainTestSequences ?series 3)
      = \<lparr> seq_X = [[Val (4 / 5), Val (17 / 20), Val (9 / 10)],
                   [Val (17 / 20), Val (9 / 10), Val (19 / 20)]],
          seq_y = [Val (19 / 20), Val 1] \<rparr>"
    using nz by (simp add: trainTestSequences_def Let_def slice_from_def rel_index_def
          createSequences_closed)
  have smin: "split_min (trainTestSequences ?series 3) = Val 0"
    and smax: "split_max (trainTestSequences ?series 3) = Val 20"
    using nz by (simp_all add: trainTestSequences_def Let_def)
  have train: "\<exists>m. trainSingleModel ?str ?num ?fit ?ed 3 n d name = Inr m
                 \<and> lstmNeurons m = n \<and> accuracy m = Some (Val 0)
                 \<and> mae m = Some (Val (if n = 32 then 41 / 2 else 39 / 2))" for n d name
    unfolding trainSingleModel_def Let_def series
    using test smin smax ln
    by (simp add: denormalizeData_def num_sub_def meanAbsoluteError_def
          reduce_index_def accuracyPercent_def percentageErrors_def map_index_def at_num_def)
  let ?c = "\<lambda>n. \<lparr> c_lookback = 3, c_neurons = n, c_dropout = Val (1 / 10) \<rparr>"
  from train [of 32 "Val (1 / 10)" "configName ?str (?c 32)"]
  obtain m32 where m32:
    "trainSingleModel ?str ?num ?fit ?ed 3 32 (Val (1 / 10)) (configName ?str (?c 32)) = Inr m32"
    "lstmNeurons m32 = 32" "accuracy m32 = Some (Val 0)" "mae m32 = Some (Val (41 / 2))"
    by auto
  from train [of 50 "Val (1 / 10)" "configName ?str (?c 50)"]
  obtain m50 where m50:
    "trainSingleModel ?str ?num ?fit ?ed 3 50 (Val (1 / 10)) (configName ?str (?c 50)) = Inr m50"
    "lstmNeurons m50 = 50" "accuracy m50 = Some (Val 0)" "mae m50 = Some (Val (39 / 2))"
    by auto
  from train [of 64 "Val (1 / 10)" "configName ?str (?c 64)"]
  obtain m64 where m64:
    "trainSingleModel ?str ?num ?fit ?ed 3 64 (Val (1 / 10)) (configName ?str (?c 64)) = Inr m64"
    "lstmNeurons m64 = 64" "accuracy m64 = Some (Val 0)" "mae m64 = Some (Val (39 / 2))"
    by auto
  from train [of 100 "Val (1 / 10)" "configName ?str (?c 100)"]
  obtain m100 where m100:
    "trainSingleModel ?str ?num ?fit ?ed 3 100 (Val (1 / 10)) (configName ?str (?c 100)) = Inr m100"
    "lstmNeurons m100 = 100" "accuracy m100 = Some (Val 0)" "mae m100 = Some (Val (39 / 2))"
    by auto
  let ?st = "foldl (tuneStep ?str ?num ?fit ?ed (length (combinations HYPERPARAMETERS)))
               \<lparr> allModels = [], bestAccuracy = Val 0, bestConfig = [], progress = [] \<rparr>
               (zip [0..<length (combinations HYPERPARAMETERS)] (combinations HYPERPARAMETERS))"
  have am: "allModels ?st = [m32, m50, m64, m100]"
    unfolding foldl_tuneStep_allModels
    using m32(1) m50(1) m64(1) m100(1)
    by (simp add: concat_map_zip_snd combinations_HYPERPARAMETERS)
  have srt: "js_sort byAccuracyDesc [m32, m50, m64, m100] = [m32, m50, m64, m100]"
    by (simp add: js_sort_def byAccuracyDesc_def orZero_def num_sub_def
          m32(3) m50(3) m64(3) m100(3))
  have res: "autoTuneModels ?str ?num ?fit True ?ed
               = Some \<lparr> models = [m32, m50, m64, m100], bestModel = Some m32,
                        tuningEvents = progress ?st \<rparr>"
    unfolding autoTuneModels_def Let_def am srt by simp
  have proj: "map (\<lambda>m. (lstmNeurons m, accuracy m, mae m)) [m32, m50, m64, m100]
        = [(32, Some (Val 0), Some (Val (41 / 2))), (50, Some (Val 0), Some (Val (39 / 2))),
           (64, Some (Val 0), Some (Val (39 / 2))), (100, Some (Val 0), Some (Val (39 / 2)))]"
    by (simp add: m32 m50 m64 m100)
  have unordered: "\<not> spec_ordered [m32, m50, m64, m100]"
    by (simp add: spec_ordered_def spec_before_def orZero_def m32 m50 m64 m100)
  show ?thesis
    apply (rule exI [of _ "\<lparr> models = [m32, m50, m64, m100], bestModel = Some m32,
                            tuningEvents = progress ?st \<rparr>"])
    apply (intro conjI)
      apply (rule res)
     apply (simp only: tuning_result.simps proj)
    apply (simp only: tuning_result.simps unordered not_False_eq_True)
    done
qed

end
